theory Spec2Isabelle
  imports Complex_Main "HOL-Library.Sublist" "HOL-Library.Word"
begin

section \<open>JavaScript built-ins used by the route handlers\<close>

text \<open>
  The handlers of the SKU system are TypeScript functions over a Prisma database. The
  few library functions they call are modelled here on the inputs the handlers give them.
  A JavaScript number that comes out of \<^verbatim>\<open>parseInt\<close> and \<^verbatim>\<open>Math.max\<close> is an integer,
  \<^verbatim>\<open>NaN\<close> or \<^verbatim>\<open>-Infinity\<close> (the value of \<^verbatim>\<open>Math.max()\<close> on no arguments).
\<close>

datatype number = NaN | NegInfinity | Num int

definition digit_char :: "nat \<Rightarrow> char" where
  "digit_char d = ''0123456789'' ! d"

definition is_digit :: "char \<Rightarrow> bool" where
  "is_digit c = (48 \<le> (of_char c :: nat) \<and> (of_char c :: nat) \<le> 57)"

definition digit_value :: "char \<Rightarrow> nat" where
  "digit_value c = of_char c - 48"

fun decimal :: "nat \<Rightarrow> string" where
  "decimal n = (if n < 10 then [digit_char n] else decimal (n div 10) @ [digit_char (n mod 10)])"

declare decimal.simps [simp del]

text \<open>\<^verbatim>\<open>String(x)\<close> on a number.\<close>

fun String :: "number \<Rightarrow> string" where
  "String NaN = ''NaN''"
| "String NegInfinity = ''-Infinity''"
| "String (Num i) = (if i < 0 then CHR ''-'' # decimal (nat (- i)) else decimal (nat i))"

text \<open>\<^verbatim>\<open>s.padStart(targetLength, padString)\<close> and \<^verbatim>\<open>s.slice(start)\<close> for \<open>start \<ge> 0\<close>.\<close>

definition padStart :: "nat \<Rightarrow> string \<Rightarrow> string \<Rightarrow> string" where
  "padStart targetLength padString s =
     (if targetLength \<le> length s \<or> padString = [] then s
      else take (targetLength - length s)
             (concat (replicate (targetLength - length s) padString)) @ s)"

definition slice :: "nat \<Rightarrow> string \<Rightarrow> string" where
  "slice start s = drop start s"

text \<open>
  \<^verbatim>\<open>parseInt(s, 10)\<close>: leading white space is skipped, one sign is read, then the longest
  run of decimal digits; no digit at all gives \<^verbatim>\<open>NaN\<close>.
\<close>

definition is_white :: "char \<Rightarrow> bool" where
  "is_white c = (c \<in> set [CHR '' '', CHR 0x09, CHR 0x0A, CHR 0x0B, CHR 0x0C, CHR 0x0D])"

definition digits_value :: "string \<Rightarrow> nat" where
  "digits_value ds = foldl (\<lambda>acc c. 10 * acc + digit_value c) 0 ds"

definition parseInt :: "string \<Rightarrow> number" where
  "parseInt s =
     (let t = dropWhile is_white s;
          (neg, u) = (case t of
                        [] \<Rightarrow> (False, t)
                      | c # r \<Rightarrow> if c = CHR ''-'' then (True, r)
                                 else if c = CHR ''+'' then (False, r) else (False, t));
          ds = takeWhile is_digit u
      in if ds = [] then NaN
         else if neg then Num (- int (digits_value ds)) else Num (int (digits_value ds)))"

text \<open>\<^verbatim>\<open>Math.max(...xs)\<close>: \<^verbatim>\<open>NaN\<close> if any argument is, \<^verbatim>\<open>-Infinity\<close> on no argument.\<close>

fun max2 :: "number \<Rightarrow> number \<Rightarrow> number" where
  "max2 NaN _ = NaN"
| "max2 _ NaN = NaN"
| "max2 NegInfinity y = y"
| "max2 x NegInfinity = x"
| "max2 (Num a) (Num b) = Num (max a b)"

definition Math_max :: "number list \<Rightarrow> number" where
  "Math_max xs = foldl max2 NegInfinity xs"

text \<open>\<^verbatim>\<open>x >= 99\<close> and \<^verbatim>\<open>x + 1\<close> on a number; every comparison with \<^verbatim>\<open>NaN\<close> is false.\<close>

fun ge_number :: "number \<Rightarrow> int \<Rightarrow> bool" where
  "ge_number (Num a) k = (k \<le> a)"
| "ge_number _ k = False"

fun plus_number :: "number \<Rightarrow> int \<Rightarrow> number" where
  "plus_number (Num a) k = Num (a + k)"
| "plus_number x k = x"

text \<open>
  A valid \<^verbatim>\<open>Date\<close> object is seen through the three getters the handler calls, which
  read the calendar fields in the host's time zone; \<^verbatim>\<open>getMonth\<close> counts from 0. An
  \<^verbatim>\<open>Invalid Date\<close> is \<open>None\<close>: its getters return \<^verbatim>\<open>NaN\<close>.
\<close>

record date =
  getFullYear :: int
  getMonth :: int
  getDate :: int

text \<open>
  The host the server runs on: the minutes its local time is ahead of UTC (negative west of
  Greenwich; between -12:00 and +14:00), and what the runtime's \<^verbatim>\<open>Date\<close> constructor makes of
  every string that is not a date-only ISO string of a calendar date. The second is outside
  the repository and is taken as a parameter.
\<close>

record host =
  utc_offset :: int
  fallback_parse :: "string \<Rightarrow> date option"

definition leap_year :: "int \<Rightarrow> bool" where
  "leap_year y = ((y mod 4 = 0 \<and> y mod 100 \<noteq> 0) \<or> y mod 400 = 0)"

definition days_in_month :: "int \<Rightarrow> int \<Rightarrow> int" where
  "days_in_month y m =
     (if m = 2 then (if leap_year y then 29 else 28)
      else if m = 4 \<or> m = 6 \<or> m = 9 \<or> m = 11 then 30 else 31)"

text \<open>The calendar day before a day (year, month from 1, day).\<close>

definition previous_day :: "int \<times> int \<times> int \<Rightarrow> int \<times> int \<times> int" where
  "previous_day ymd =
     (case ymd of (y, m, d) \<Rightarrow>
        if 1 < d then (y, m, d - 1)
        else if 1 < m then (y, m - 1, days_in_month y (m - 1))
        else (y - 1, 12, 31))"

text \<open>The date-only ISO form \<^verbatim>\<open>YYYY-MM-DD\<close>, which the form's date input sends.\<close>

definition parse_iso_date :: "string \<Rightarrow> (int \<times> int \<times> int) option" where
  "parse_iso_date s =
     (if length s = 10 \<and> s ! 4 = CHR ''-'' \<and> s ! 7 = CHR ''-'' \<and>
         list_all is_digit (take 4 s) \<and> list_all is_digit (take 2 (drop 5 s)) \<and>
         list_all is_digit (drop 8 s)
      then Some (int (digits_value (take 4 s)), int (digits_value (take 2 (drop 5 s))),
                 int (digits_value (drop 8 s)))
      else None)"

text \<open>
  \<^verbatim>\<open>new Date(s)\<close> seen through the local getters. A date-only ISO string is midnight UTC of
  that day; the getters read it in local time, which west of Greenwich is still the evening
  of the day before.
\<close>

definition new_Date :: "host \<Rightarrow> string \<Rightarrow> date option" where
  "new_Date h s =
     (case parse_iso_date s of
        None \<Rightarrow> fallback_parse h s
      | Some (y, m, d) \<Rightarrow>
          if 1 \<le> m \<and> m \<le> 12 \<and> 1 \<le> d \<and> d \<le> days_in_month y m then
            (case (if utc_offset h < 0 then previous_day (y, m, d) else (y, m, d)) of
               (y', m', d') \<Rightarrow> Some \<lparr>getFullYear = y', getMonth = m' - 1, getDate = d'\<rparr>)
          else fallback_parse h s)"

text \<open>
  An amount is an IEEE 754 double, held as its 64 bits: the sign, 11 bits of exponent and
  52 bits of fraction. \<^verbatim>\<open>request.json()\<close> has already rounded the number of the request to
  one; a number too large for a double arrives as \<^verbatim>\<open>Infinity\<close>, one too small as 0.
\<close>

type_synonym double = "64 word"

definition exponent_bits :: "double \<Rightarrow> nat" where
  "exponent_bits w = unat (take_bit 11 (drop_bit 52 w))"

definition fraction_bits :: "double \<Rightarrow> nat" where
  "fraction_bits w = unat (take_bit 52 w)"

definition sign_bit :: "double \<Rightarrow> bool" where
  "sign_bit w = bit w 63"

definition is_NaN :: "double \<Rightarrow> bool" where
  "is_NaN w = (exponent_bits w = 2047 \<and> fraction_bits w \<noteq> 0)"

definition is_zero :: "double \<Rightarrow> bool" where
  "is_zero w = (exponent_bits w = 0 \<and> fraction_bits w = 0)"

definition isFinite :: "double \<Rightarrow> bool" where
  "isFinite w = (exponent_bits w \<noteq> 2047)"

text \<open>The rational number a finite double stands for.\<close>

definition double_value :: "double \<Rightarrow> rat" where
  "double_value w =
     (let m = (if exponent_bits w = 0 then of_nat (fraction_bits w)
               else of_nat (2 ^ 52 + fraction_bits w));
          e = (if exponent_bits w = 0 then 1 else exponent_bits w);
          v = (if 1075 \<le> e then m * 2 ^ (e - 1075) else m / 2 ^ (1075 - e))
      in if sign_bit w then - v else v)"


section \<open>The database\<close>

record code_row =
  code :: string
  name :: string

record color_row = code_row +
  hexValue :: "string option"

record size_row = code_row +
  abbrev :: string
  sortOrder :: int

record inventory_row =
  sku :: string
  typeCode :: string
  colorCode :: string
  patternCode :: string
  sizeCode :: string
  dateCode :: string
  sequenceNum :: string
  displayName :: string
  purchaseDate :: "date option"
  purchaseCost :: double
  sellingPrice :: double
  syncedToLoyverse :: bool

record db =
  type_table :: "code_row list"
  color_table :: "color_row list"
  pattern_table :: "code_row list"
  size_table :: "size_row list"
  inventory_table :: "inventory_row list"

text \<open>
  Modelled from the spec: the Prisma schema (\<^verbatim>\<open>prisma/schema.prisma\<close>) is not among the
  sources. The spec makes the Identifier the primary key of the Ledger, whose insert
  rejects a duplicate key, and makes a code unique within its category; the handlers rely
  on both through \<^verbatim>\<open>findUnique\<close> and \<^verbatim>\<open>delete\<close>. A table is a list of rows in insertion
  order; \<open>None\<close> is the exception the Prisma client throws.
\<close>

definition findUnique :: "('r \<Rightarrow> string) \<Rightarrow> 'r list \<Rightarrow> string \<Rightarrow> 'r option" where
  "findUnique key rows k = find (\<lambda>r. key r = k) rows"

definition table_create :: "('r \<Rightarrow> string) \<Rightarrow> 'r list \<Rightarrow> 'r \<Rightarrow> 'r list option" where
  "table_create key rows r = (if key r \<in> set (map key rows) then None else Some (rows @ [r]))"

definition table_delete :: "('r \<Rightarrow> string) \<Rightarrow> 'r list \<Rightarrow> string \<Rightarrow> 'r list option" where
  "table_delete key rows k =
     (if k \<in> set (map key rows) then Some (filter (\<lambda>r. key r \<noteq> k) rows) else None)"

definition table_upsert :: "('r \<Rightarrow> string) \<Rightarrow> 'r list \<Rightarrow> 'r \<Rightarrow> 'r list" where
  "table_upsert key rows r = (if key r \<in> set (map key rows) then rows else rows @ [r])"

text \<open>
  Prisma's \<^verbatim>\<open>startsWith\<close> filter is the SQL test \<^verbatim>\<open>sku LIKE 'baseKey%'\<close>, with the key
  put in the pattern as it is. On SQLite, the database of this branch, \<^verbatim>\<open>LIKE\<close> compares
  ASCII letters without regard to case, \<^verbatim>\<open>%\<close> in the pattern matches any run of
  characters and \<^verbatim>\<open>_\<close> any one character.
\<close>

definition ascii_fold :: "char \<Rightarrow> nat" where
  "ascii_fold c = (let n = of_char c in if 65 \<le> n \<and> n \<le> 90 then n + 32 else n)"

fun like_match :: "string \<Rightarrow> string \<Rightarrow> bool" where
  "like_match [] s = (s = [])"
| "like_match (p # ps) [] = (p = CHR ''%'' \<and> like_match ps [])"
| "like_match (p # ps) (c # cs) =
     (if p = CHR ''%'' then like_match ps (c # cs) \<or> like_match (p # ps) cs
      else (p = CHR ''_'' \<or> ascii_fold p = ascii_fold c) \<and> like_match ps cs)"

definition startsWith :: "string \<Rightarrow> string \<Rightarrow> bool" where
  "startsWith baseKey s = like_match (baseKey @ ''%'') s"

text \<open>
  \<^verbatim>\<open>findMany({ where: { sku: { startsWith: baseKey } }, orderBy: { sequenceNum: 'desc' } })\<close>.
  The handler reads only the length of the result and the maximum over it, neither of
  which depends on the order, so the rows are kept in table order.
\<close>

definition findMany_startsWith :: "string \<Rightarrow> inventory_row list \<Rightarrow> inventory_row list" where
  "findMany_startsWith baseKey rows = filter (\<lambda>r. startsWith baseKey (sku r)) rows"

text \<open>
  \<^verbatim>\<open>prisma.inventory.create\<close>: the client refuses a value it cannot send to the database, an
  \<^verbatim>\<open>Invalid Date\<close> or a number that is not finite, before the insert, whose primary key
  rejects a duplicate identifier. Either way it throws.
\<close>

definition valid_values :: "inventory_row \<Rightarrow> bool" where
  "valid_values r =
     (purchaseDate r \<noteq> None \<and> isFinite (purchaseCost r) \<and> isFinite (sellingPrice r))"

definition inventory_create :: "inventory_row list \<Rightarrow> inventory_row \<Rightarrow> inventory_row list option" where
  "inventory_create rows r = (if valid_values r then table_create sku rows r else None)"

text \<open>A response is \<^verbatim>\<open>NextResponse.json(payload, { status })\<close>, with a payload or an error message.\<close>

datatype 'a response = Reply nat 'a | Failure nat string


section \<open>POST /api/inventory\<close>

text \<open>
  The request body after \<^verbatim>\<open>request.json()\<close>. A code and the purchase date are strings,
  empty when the field is absent or empty (both are falsy). An amount is a JSON number,
  as the form sends it, \<open>None\<close> when absent or null. Strings are ASCII, one character per
  code unit.
\<close>

record inventory_body =
  body_typeCode :: string
  body_colorCode :: string
  body_patternCode :: string
  body_sizeCode :: string
  body_purchaseDate :: string
  body_purchaseCost :: "double option"
  body_sellingPrice :: "double option"

record inventory_item =
  item_row :: inventory_row
  item_type :: code_row
  item_color :: color_row
  item_pattern :: code_row
  item_size :: size_row

text \<open>\<^verbatim>\<open>!x\<close> on an amount: true of an absent one, of 0, -0 and \<^verbatim>\<open>NaN\<close>.\<close>

definition falsy_amount :: "double option \<Rightarrow> bool" where
  "falsy_amount a = (case a of None \<Rightarrow> True | Some w \<Rightarrow> is_zero w \<or> is_NaN w)"

text \<open>
  \<^verbatim>\<open>parseFloat(x)\<close> writes the number as a string and reads it back, which gives the same
  double. The handler calls it only after the check of the required fields, so never on an
  absent amount, where it would give \<^verbatim>\<open>NaN\<close>.
\<close>

definition parseFloat :: "double option \<Rightarrow> double" where
  "parseFloat a = (case a of None \<Rightarrow> 0x7FF8000000000000 | Some w \<Rightarrow> w)"

definition missing_required :: "inventory_body \<Rightarrow> bool" where
  "missing_required b =
     (body_typeCode b = [] \<or> body_colorCode b = [] \<or> body_patternCode b = [] \<or>
      body_sizeCode b = [] \<or> body_purchaseDate b = [] \<or>
      falsy_amount (body_purchaseCost b) \<or> falsy_amount (body_sellingPrice b))"

text \<open>The date code from what the three getters return.\<close>

definition dateCode_from :: "number \<Rightarrow> number \<Rightarrow> number \<Rightarrow> string" where
  "dateCode_from fullYear month day =
     slice 2 (String fullYear) @
     padStart 2 ''0'' (String (plus_number month 1)) @
     padStart 2 ''0'' (String day)"

definition compute_dateCode :: "date \<Rightarrow> string" where
  "compute_dateCode d = dateCode_from (Num (getFullYear d)) (Num (getMonth d)) (Num (getDate d))"

definition invalid_dateCode :: string where
  "invalid_dateCode = dateCode_from NaN NaN NaN"

definition compute_baseKey :: "inventory_body \<Rightarrow> date \<Rightarrow> string" where
  "compute_baseKey b d =
     body_typeCode b @ body_colorCode b @ body_patternCode b @ body_sizeCode b @ compute_dateCode d"

text \<open>The date code and the base key of a request on a host.\<close>

definition request_dateCode :: "host \<Rightarrow> inventory_body \<Rightarrow> string" where
  "request_dateCode h b =
     (case new_Date h (body_purchaseDate b) of
        None \<Rightarrow> invalid_dateCode
      | Some date \<Rightarrow> compute_dateCode date)"

definition request_key :: "host \<Rightarrow> inventory_body \<Rightarrow> string" where
  "request_key h b =
     body_typeCode b @ body_colorCode b @ body_patternCode b @ body_sizeCode b @ request_dateCode h b"

text \<open>The next sequence number; \<open>None\<close> is the early return when 99 is reached.\<close>

definition compute_sequenceNum :: "inventory_row list \<Rightarrow> string option" where
  "compute_sequenceNum existingItems =
     (if length existingItems > 0 then
        (let maxSeq = Math_max (map (\<lambda>item. parseInt (sequenceNum item)) existingItems)
         in if ge_number maxSeq 99 then None
            else Some (padStart 2 ''0'' (String (plus_number maxSeq 1))))
      else Some ''01'')"

definition compute_displayName :: "code_row \<Rightarrow> color_row \<Rightarrow> code_row \<Rightarrow> size_row \<Rightarrow> string" where
  "compute_displayName t c p s = name t @ '', '' @ name c @ '' '' @ name p @ '', '' @ abbrev s"

text \<open>
  Everything the handler does before \<^verbatim>\<open>prisma.inventory.create\<close>: it only reads the
  database. The result is the early response, or the row to insert with the four
  catalog rows of the \<^verbatim>\<open>include\<close>.
\<close>

definition POST_inventory_plan :: "host \<Rightarrow> db \<Rightarrow> inventory_body \<Rightarrow> inventory_item response + inventory_item" where
  "POST_inventory_plan h d b =
     (if missing_required b then Inl (Failure 400 ''Missing required fields'')
      else
        (let date = new_Date h (body_purchaseDate b);
             dateCode' = request_dateCode h b;
             baseKey = request_key h b;
             existingItems = findMany_startsWith baseKey (inventory_table d)
         in case compute_sequenceNum existingItems of
              None \<Rightarrow> Inl (Failure 400 ''Maximum 99 items with same attributes per day reached'')
            | Some sequenceNum' \<Rightarrow>
               (let sku' = baseKey @ sequenceNum'
                in case (findUnique code (type_table d) (body_typeCode b),
                         findUnique code (color_table d) (body_colorCode b),
                         findUnique code (pattern_table d) (body_patternCode b),
                         findUnique code (size_table d) (body_sizeCode b)) of
                     (Some t, Some c, Some p, Some s) \<Rightarrow>
                       Inr \<lparr>item_row =
                              \<lparr>sku = sku',
                               typeCode = body_typeCode b,
                               colorCode = body_colorCode b,
                               patternCode = body_patternCode b,
                               sizeCode = body_sizeCode b,
                               dateCode = dateCode',
                               sequenceNum = sequenceNum',
                               displayName = compute_displayName t c p s,
                               purchaseDate = date,
                               purchaseCost = parseFloat (body_purchaseCost b),
                               sellingPrice = parseFloat (body_sellingPrice b),
                               syncedToLoyverse = False\<rparr>,
                            item_type = t, item_color = c, item_pattern = p, item_size = s\<rparr>
                   | _ \<Rightarrow> Inl (Failure 400 ''Invalid code(s) provided''))))"

text \<open>
  The handler with its two database phases apart: the reads see \<open>snapshot\<close>, the insert
  runs on \<open>d\<close>. Another request can commit between the two \<^verbatim>\<open>await\<close>s, and then
  they differ. An exception of the insert is caught and answered with status 500.
\<close>

definition POST_inventory_at :: "host \<Rightarrow> db \<Rightarrow> db \<Rightarrow> inventory_body \<Rightarrow> db \<times> inventory_item response" where
  "POST_inventory_at h snapshot d b =
     (case POST_inventory_plan h snapshot b of
        Inl early \<Rightarrow> (d, early)
      | Inr item \<Rightarrow>
         (case inventory_create (inventory_table d) (item_row item) of
            None \<Rightarrow> (d, Failure 500 ''Failed to create inventory item'')
          | Some rows \<Rightarrow> (d\<lparr>inventory_table := rows\<rparr>, Reply 201 item)))"

definition POST_inventory :: "host \<Rightarrow> db \<Rightarrow> inventory_body \<Rightarrow> db \<times> inventory_item response" where
  "POST_inventory h d b = POST_inventory_at h d d b"


section \<open>DELETE /api/inventory/[sku]\<close>

definition DELETE_inventory :: "db \<Rightarrow> string \<Rightarrow> db \<times> bool response" where
  "DELETE_inventory d sku' =
     (case table_delete sku (inventory_table d) sku' of
        None \<Rightarrow> (d, Failure 500 ''Failed to delete inventory item'')
      | Some rows \<Rightarrow> (d\<lparr>inventory_table := rows\<rparr>, Reply 200 True))"

section \<open>POST /api/code-library/[category]\<close>

datatype category = Types | Colors | Patterns | Sizes

text \<open>The route parameter is a string; the handlers accept the four category names.\<close>

definition parse_category :: "string \<Rightarrow> category option" where
  "parse_category s =
     (if s = ''types'' then Some Types
      else if s = ''colors'' then Some Colors
      else if s = ''patterns'' then Some Patterns
      else if s = ''sizes'' then Some Sizes
      else None)"

text \<open>The body \<^verbatim>\<open>{ code, name, hexValue, abbrev }\<close>; an absent field is the empty string.\<close>

record code_body =
  body_code :: string
  body_name :: string
  body_hexValue :: string
  body_abbrev :: string

datatype code_item = CodeItem code_row | ColorItem color_row | SizeItem size_row

text \<open>\<^verbatim>\<open>prisma.size.aggregate({ _max: { sortOrder: true } })\<close>, null on an empty table.\<close>

definition max_sortOrder :: "size_row list \<Rightarrow> int option" where
  "max_sortOrder rows =
     (case rows of [] \<Rightarrow> None | r # rs \<Rightarrow> Some (foldl (\<lambda>m x. max m (sortOrder x)) (sortOrder r) rs))"

definition code_exists :: "db \<Rightarrow> category \<Rightarrow> string \<Rightarrow> bool" where
  "code_exists d cat c =
     (case cat of
        Types \<Rightarrow> findUnique code (type_table d) c \<noteq> None
      | Colors \<Rightarrow> findUnique code (color_table d) c \<noteq> None
      | Patterns \<Rightarrow> findUnique code (pattern_table d) c \<noteq> None
      | Sizes \<Rightarrow> findUnique code (size_table d) c \<noteq> None)"

definition failed_to_add :: "db \<Rightarrow> db \<times> code_item response" where
  "failed_to_add d = (d, Failure 500 ''Failed to add code'')"

definition create_code :: "db \<Rightarrow> category \<Rightarrow> code_body \<Rightarrow> db \<times> code_item response" where
  "create_code d cat b =
     (case cat of
        Colors \<Rightarrow>
          (let item = \<lparr>code = body_code b, name = body_name b,
                       hexValue = (if body_hexValue b = [] then None else Some (body_hexValue b))\<rparr>
           in case table_create code (color_table d) item of
                None \<Rightarrow> failed_to_add d
              | Some rows \<Rightarrow> (d\<lparr>color_table := rows\<rparr>, Reply 200 (ColorItem item)))
      | Sizes \<Rightarrow>
          (let maxOrder = max_sortOrder (size_table d);
               item = \<lparr>code = body_code b, name = body_name b,
                       abbrev = (if body_abbrev b = [] then body_code b else body_abbrev b),
                       sortOrder = (case maxOrder of None \<Rightarrow> 0 | Some m \<Rightarrow> m) + 1\<rparr>
           in case table_create code (size_table d) item of
                None \<Rightarrow> failed_to_add d
              | Some rows \<Rightarrow> (d\<lparr>size_table := rows\<rparr>, Reply 200 (SizeItem item)))
      | Types \<Rightarrow>
          (let item = \<lparr>code = body_code b, name = body_name b\<rparr>
           in case table_create code (type_table d) item of
                None \<Rightarrow> failed_to_add d
              | Some rows \<Rightarrow> (d\<lparr>type_table := rows\<rparr>, Reply 200 (CodeItem item)))
      | Patterns \<Rightarrow>
          (let item = \<lparr>code = body_code b, name = body_name b\<rparr>
           in case table_create code (pattern_table d) item of
                None \<Rightarrow> failed_to_add d
              | Some rows \<Rightarrow> (d\<lparr>pattern_table := rows\<rparr>, Reply 200 (CodeItem item))))"

definition POST_code_library :: "db \<Rightarrow> string \<Rightarrow> code_body \<Rightarrow> db \<times> code_item response" where
  "POST_code_library d category b =
     (if body_code b = [] \<or> body_name b = [] then (d, Failure 400 ''Code and name are required'')
      else if length (body_code b) \<noteq> 2 then (d, Failure 400 ''Code must be exactly 2 characters'')
      else case parse_category category of
        None \<Rightarrow> (d, Failure 400 ''Invalid category'')
      | Some cat \<Rightarrow>
          if code_exists d cat (body_code b) then (d, Failure 400 ''Code already exists'')
          else create_code d cat b)"


section \<open>DELETE /api/code-library/[category]/[code]\<close>

text \<open>\<^verbatim>\<open>prisma.inventory.count({ where: { [fieldMap[category]]: code } })\<close>.\<close>

definition fieldMap :: "category \<Rightarrow> inventory_row \<Rightarrow> string" where
  "fieldMap cat = (case cat of Types \<Rightarrow> typeCode | Colors \<Rightarrow> colorCode
                   | Patterns \<Rightarrow> patternCode | Sizes \<Rightarrow> sizeCode)"

definition inventory_count :: "db \<Rightarrow> category \<Rightarrow> string \<Rightarrow> nat" where
  "inventory_count d cat c = length (filter (\<lambda>r. fieldMap cat r = c) (inventory_table d))"

definition delete_code :: "db \<Rightarrow> category \<Rightarrow> string \<Rightarrow> db option" where
  "delete_code d cat c =
     (case cat of
        Types \<Rightarrow> map_option (\<lambda>rows. d\<lparr>type_table := rows\<rparr>) (table_delete code (type_table d) c)
      | Colors \<Rightarrow> map_option (\<lambda>rows. d\<lparr>color_table := rows\<rparr>) (table_delete code (color_table d) c)
      | Patterns \<Rightarrow> map_option (\<lambda>rows. d\<lparr>pattern_table := rows\<rparr>) (table_delete code (pattern_table d) c)
      | Sizes \<Rightarrow> map_option (\<lambda>rows. d\<lparr>size_table := rows\<rparr>) (table_delete code (size_table d) c))"

definition DELETE_code_library :: "db \<Rightarrow> string \<Rightarrow> string \<Rightarrow> db \<times> bool response" where
  "DELETE_code_library d category c =
     (case parse_category category of
        None \<Rightarrow> (d, Failure 400 ''Invalid category'')
      | Some cat \<Rightarrow>
         (let inUseCount = inventory_count d cat c
          in if inUseCount > 0 then
               (d, Failure 400 (''Cannot delete: '' @ String (Num (int inUseCount)) @
                                '' inventory item(s) use this code''))
             else case delete_code d cat c of
                    None \<Rightarrow> (d, Failure 500 ''Failed to delete code'')
                  | Some d' \<Rightarrow> (d', Reply 200 True)))"

section \<open>The seed script\<close>

text \<open>\<^verbatim>\<open>prisma/seed.ts\<close> upserts its four lists, with an empty update, row by row.\<close>

definition seed_types :: "code_row list" where
  "seed_types =
   [\<lparr>code = ''SH'', name = ''Shirt''\<rparr>,
    \<lparr>code = ''BL'', name = ''Blouse''\<rparr>,
    \<lparr>code = ''DR'', name = ''Dress''\<rparr>,
    \<lparr>code = ''SK'', name = ''Skirt''\<rparr>,
    \<lparr>code = ''PN'', name = ''Pants''\<rparr>,
    \<lparr>code = ''JN'', name = ''Jeans''\<rparr>,
    \<lparr>code = ''JK'', name = ''Jacket''\<rparr>,
    \<lparr>code = ''CT'', name = ''Coat''\<rparr>,
    \<lparr>code = ''SW'', name = ''Sweater''\<rparr>,
    \<lparr>code = ''TS'', name = ''T-Shirt''\<rparr>,
    \<lparr>code = ''TK'', name = ''Tank Top''\<rparr>,
    \<lparr>code = ''ST'', name = ''Shorts''\<rparr>,
    \<lparr>code = ''JM'', name = ''Jumpsuit''\<rparr>,
    \<lparr>code = ''RO'', name = ''Romper''\<rparr>,
    \<lparr>code = ''VT'', name = ''Vest''\<rparr>,
    \<lparr>code = ''CR'', name = ''Cardigan''\<rparr>,
    \<lparr>code = ''HD'', name = ''Hoodie''\<rparr>,
    \<lparr>code = ''LG'', name = ''Leggings''\<rparr>]"

definition seed_colors :: "color_row list" where
  "seed_colors =
   [\<lparr>code = ''BK'', name = ''Black'', hexValue = Some ''#000000''\<rparr>,
    \<lparr>code = ''WT'', name = ''White'', hexValue = Some ''#FFFFFF''\<rparr>,
    \<lparr>code = ''GY'', name = ''Gray'', hexValue = Some ''#808080''\<rparr>,
    \<lparr>code = ''NV'', name = ''Navy'', hexValue = Some ''#000080''\<rparr>,
    \<lparr>code = ''BL'', name = ''Blue'', hexValue = Some ''#0000FF''\<rparr>,
    \<lparr>code = ''RD'', name = ''Red'', hexValue = Some ''#FF0000''\<rparr>,
    \<lparr>code = ''PK'', name = ''Pink'', hexValue = Some ''#FFC0CB''\<rparr>,
    \<lparr>code = ''PR'', name = ''Purple'', hexValue = Some ''#800080''\<rparr>,
    \<lparr>code = ''GN'', name = ''Green'', hexValue = Some ''#008000''\<rparr>,
    \<lparr>code = ''YL'', name = ''Yellow'', hexValue = Some ''#FFFF00''\<rparr>,
    \<lparr>code = ''OR'', name = ''Orange'', hexValue = Some ''#FFA500''\<rparr>,
    \<lparr>code = ''BR'', name = ''Brown'', hexValue = Some ''#8B4513''\<rparr>,
    \<lparr>code = ''BG'', name = ''Beige'', hexValue = Some ''#F5F5DC''\<rparr>,
    \<lparr>code = ''CR'', name = ''Cream'', hexValue = Some ''#FFFDD0''\<rparr>,
    \<lparr>code = ''TN'', name = ''Tan'', hexValue = Some ''#D2B48C''\<rparr>,
    \<lparr>code = ''MV'', name = ''Mauve'', hexValue = Some ''#E0B0FF''\<rparr>,
    \<lparr>code = ''TL'', name = ''Teal'', hexValue = Some ''#008080''\<rparr>,
    \<lparr>code = ''BU'', name = ''Burgundy'', hexValue = Some ''#800020''\<rparr>,
    \<lparr>code = ''MT'', name = ''Multi'', hexValue = None\<rparr>]"

definition seed_patterns :: "code_row list" where
  "seed_patterns =
   [\<lparr>code = ''SD'', name = ''Solid''\<rparr>,
    \<lparr>code = ''ST'', name = ''Striped''\<rparr>,
    \<lparr>code = ''PL'', name = ''Plaid''\<rparr>,
    \<lparr>code = ''FL'', name = ''Floral''\<rparr>,
    \<lparr>code = ''DT'', name = ''Dotted''\<rparr>,
    \<lparr>code = ''CK'', name = ''Checkered''\<rparr>,
    \<lparr>code = ''PR'', name = ''Printed''\<rparr>,
    \<lparr>code = ''AB'', name = ''Abstract''\<rparr>,
    \<lparr>code = ''AN'', name = ''Animal Print''\<rparr>,
    \<lparr>code = ''CM'', name = ''Camouflage''\<rparr>,
    \<lparr>code = ''PS'', name = ''Paisley''\<rparr>,
    \<lparr>code = ''GE'', name = ''Geometric''\<rparr>,
    \<lparr>code = ''TY'', name = ''Tie-Dye''\<rparr>,
    \<lparr>code = ''EM'', name = ''Embroidered''\<rparr>,
    \<lparr>code = ''LN'', name = ''Linen''\<rparr>,
    \<lparr>code = ''DN'', name = ''Denim''\<rparr>]"

definition seed_sizes :: "size_row list" where
  "seed_sizes =
   [\<lparr>code = ''XS'', name = ''Extra Small'', abbrev = ''XS'', sortOrder = 1\<rparr>,
    \<lparr>code = ''SM'', name = ''Small'', abbrev = ''S'', sortOrder = 2\<rparr>,
    \<lparr>code = ''MD'', name = ''Medium'', abbrev = ''M'', sortOrder = 3\<rparr>,
    \<lparr>code = ''LG'', name = ''Large'', abbrev = ''L'', sortOrder = 4\<rparr>,
    \<lparr>code = ''XL'', name = ''Extra Large'', abbrev = ''XL'', sortOrder = 5\<rparr>,
    \<lparr>code = ''2X'', name = ''2X Large'', abbrev = ''2XL'', sortOrder = 6\<rparr>,
    \<lparr>code = ''3X'', name = ''3X Large'', abbrev = ''3XL'', sortOrder = 7\<rparr>,
    \<lparr>code = ''OS'', name = ''One Size'', abbrev = ''OS'', sortOrder = 8\<rparr>]"

definition seed :: "db \<Rightarrow> db" where
  "seed d =
     d\<lparr>type_table := foldl (table_upsert code) (type_table d) seed_types,
       color_table := foldl (table_upsert code) (color_table d) seed_colors,
       pattern_table := foldl (table_upsert code) (pattern_table d) seed_patterns,
       size_table := foldl (table_upsert code) (size_table d) seed_sizes\<rparr>"

definition empty_db :: db where
  "empty_db = \<lparr>type_table = [], color_table = [], pattern_table = [], size_table = [],
               inventory_table = []\<rparr>"

definition seed_db :: db where
  "seed_db = seed empty_db"


section \<open>Runs of requests\<close>

datatype request =
    PostInventory inventory_body
  | DeleteInventory string
  | PostCodeLibrary string code_body
  | DeleteCodeLibrary string string

fun handle :: "host \<Rightarrow> db \<Rightarrow> request \<Rightarrow> db" where
  "handle h d (PostInventory b) = fst (POST_inventory h d b)"
| "handle h d (DeleteInventory s) = fst (DELETE_inventory d s)"
| "handle h d (PostCodeLibrary category b) = fst (POST_code_library d category b)"
| "handle h d (DeleteCodeLibrary category c) = fst (DELETE_code_library d category c)"

definition serve :: "host \<Rightarrow> db \<Rightarrow> request list \<Rightarrow> db" where
  "serve h d rs = foldl (handle h) d rs"

text \<open>A run of allocations, one after the other, with the response of each.\<close>

fun POST_inventory_all :: "host \<Rightarrow> db \<Rightarrow> inventory_body list \<Rightarrow> db \<times> inventory_item response list" where
  "POST_inventory_all h d [] = (d, [])"
| "POST_inventory_all h d (b # bs) =
     (case POST_inventory h d b of
        (d1, r) \<Rightarrow> (case POST_inventory_all h d1 bs of (d2, rs) \<Rightarrow> (d2, r # rs)))"

fun returned_rows :: "inventory_item response list \<Rightarrow> inventory_row list" where
  "returned_rows [] = []"
| "returned_rows (Reply st item # rs) = item_row item # returned_rows rs"
| "returned_rows (Failure st msg # rs) = returned_rows rs"

fun is_Reply :: "'a response \<Rightarrow> bool" where
  "is_Reply (Reply st x) = True"
| "is_Reply (Failure st msg) = False"


section \<open>Notions of the specification\<close>

text \<open>A sequence number zero-padded to two digits.\<close>

definition two_digits :: "nat \<Rightarrow> string" where
  "two_digits n = [digit_char (n div 10), digit_char (n mod 10)]"

text \<open>
  The rows the allocator writes: the identifier is the four codes, the date segment and
  the sequence number in this order, and the sequence number is one of 01..99.
\<close>

definition row_ok :: "inventory_row \<Rightarrow> bool" where
  "row_ok r =
     (sku r = typeCode r @ colorCode r @ patternCode r @ sizeCode r @ dateCode r @ sequenceNum r \<and>
      (case parseInt (sequenceNum r) of
         Num n \<Rightarrow> 1 \<le> n \<and> n \<le> 99 \<and> sequenceNum r = two_digits (nat n)
       | _ \<Rightarrow> False))"

definition ledger_ok :: "db \<Rightarrow> bool" where
  "ledger_ok d = (distinct (map sku (inventory_table d)) \<and> list_all row_ok (inventory_table d))"

text \<open>The sequence numbers, as integers, of the identifiers that the query for a key finds.\<close>

definition seq_numbers :: "string \<Rightarrow> inventory_row list \<Rightarrow> int set" where
  "seq_numbers k rows =
     {n. \<exists>r \<in> set rows. startsWith k (sku r) \<and> parseInt (sequenceNum r) = Num n}"




text \<open>The catalog holds two-character codes, each once in its category.\<close>

definition codes_ok :: "string list \<Rightarrow> bool" where
  "codes_ok cs = (distinct cs \<and> list_all (\<lambda>c. length c = 2) cs)"

definition catalog_ok :: "db \<Rightarrow> bool" where
  "catalog_ok d =
     (codes_ok (map code (type_table d)) \<and> codes_ok (map code (color_table d)) \<and>
      codes_ok (map code (pattern_table d)) \<and> codes_ok (map code (size_table d)))"

text \<open>The codes stored in a category.\<close>

definition codes_of :: "db \<Rightarrow> category \<Rightarrow> string list" where
  "codes_of d cat =
     (case cat of Types \<Rightarrow> map code (type_table d) | Colors \<Rightarrow> map code (color_table d)
      | Patterns \<Rightarrow> map code (pattern_table d) | Sizes \<Rightarrow> map code (size_table d))"

text \<open>The sequence number of a row as an integer, 0 when it is not a number.\<close>

definition seq_of :: "inventory_row \<Rightarrow> int" where
  "seq_of r = (case parseInt (sequenceNum r) of Num n \<Rightarrow> n | _ \<Rightarrow> 0)"



section \<open>The example of the documentation\<close>

text \<open>
  The README's example: a dress (DR), blue (BL), floral (FL), medium (MD), bought on
  17 October 2025, here with a cost of 12 and a price of 24.50 (as doubles), sent to a host
  at UTC and to a host four hours behind UTC (New York in October).
\<close>

definition utc_host :: host where
  "utc_host = \<lparr>utc_offset = 0, fallback_parse = (\<lambda>s. None)\<rparr>"

definition new_york_host :: host where
  "new_york_host = \<lparr>utc_offset = - 240, fallback_parse = (\<lambda>s. None)\<rparr>"

definition dress_date :: date where
  "dress_date = \<lparr>getFullYear = 2025, getMonth = 9, getDate = 17\<rparr>"

definition dress_body :: inventory_body where
  "dress_body =
     \<lparr>body_typeCode = ''DR'', body_colorCode = ''BL'', body_patternCode = ''FL'',
      body_sizeCode = ''MD'', body_purchaseDate = ''2025-10-17'',
      body_purchaseCost = Some 0x4028000000000000,
      body_sellingPrice = Some 0x4038800000000000\<rparr>"

definition dress_row :: "string \<Rightarrow> inventory_row" where
  "dress_row s =
     \<lparr>sku = ''DRBLFLMD251017'' @ s, typeCode = ''DR'', colorCode = ''BL'', patternCode = ''FL'',
      sizeCode = ''MD'', dateCode = ''251017'', sequenceNum = s,
      displayName = ''Dress, Blue Floral, M'', purchaseDate = Some dress_date,
      purchaseCost = 0x4028000000000000, sellingPrice = 0x4038800000000000,
      syncedToLoyverse = False\<rparr>"

definition dress_item :: "string \<Rightarrow> inventory_item" where
  "dress_item s =
     \<lparr>item_row = dress_row s,
      item_type = \<lparr>code = ''DR'', name = ''Dress''\<rparr>,
      item_color = \<lparr>code = ''BL'', name = ''Blue'', hexValue = Some ''#0000FF''\<rparr>,
      item_pattern = \<lparr>code = ''FL'', name = ''Floral''\<rparr>,
      item_size = \<lparr>code = ''MD'', name = ''Medium'', abbrev = ''M'', sortOrder = 3\<rparr>\<rparr>"

text \<open>The seeded database with a given ledger.\<close>

definition seed_with :: "inventory_row list \<Rightarrow> db" where
  "seed_with rows = seed_db\<lparr>inventory_table := rows\<rparr>"


section \<open>Digits, padding and parsing\<close>

lemma digit_char_lt10:
  assumes "d < 10"
  shows "is_digit (digit_char d)" and "digit_value (digit_char d) = d"
    and "\<not> is_white (digit_char d)" and "digit_char d \<noteq> CHR ''-''" and "digit_char d \<noteq> CHR ''+''"
proof -
  from assms have "d \<in> {0,1,2,3,4,5,6,7,8,9}" by auto
  then show "is_digit (digit_char d)" and "digit_value (digit_char d) = d"
    and "\<not> is_white (digit_char d)" and "digit_char d \<noteq> CHR ''-''" and "digit_char d \<noteq> CHR ''+''"
    by (auto simp: digit_char_def is_digit_def digit_value_def is_white_def)
qed

lemma decimal_lt10: "n < 10 \<Longrightarrow> decimal n = [digit_char n]"
  by (subst decimal.simps) simp

lemma decimal_lt100: "10 \<le> n \<Longrightarrow> n < 100 \<Longrightarrow> decimal n = two_digits n"
  by (subst decimal.simps) (simp add: decimal_lt10 two_digits_def)

lemma digit_char_0: "digit_char 0 = CHR ''0''"
  by (simp add: digit_char_def)

lemma padStart_two_digits:
  assumes "n < 100"
  shows "padStart 2 ''0'' (String (Num (int n))) = two_digits n"
proof (cases "n < 10")
  case True
  then show ?thesis
    by (simp add: padStart_def decimal_lt10 two_digits_def digit_char_0)
next
  case False
  with assms show ?thesis
    by (simp add: padStart_def decimal_lt100 two_digits_def)
qed

lemma parseInt_two_digits:
  assumes "n < 100"
  shows "parseInt (two_digits n) = Num (int n)"
proof -
  have a: "n div 10 < 10" and b: "n mod 10 < 10" using assms by auto
  have "takeWhile is_digit (two_digits n) = two_digits n"
    by (simp add: two_digits_def digit_char_lt10[OF a] digit_char_lt10[OF b])
  moreover have "dropWhile is_white (two_digits n) = two_digits n"
    by (simp add: two_digits_def digit_char_lt10[OF a])
  moreover have "digits_value (two_digits n) = n"
    by (simp add: two_digits_def digits_value_def digit_char_lt10[OF a] digit_char_lt10[OF b])
  ultimately show ?thesis
    apply (simp add: parseInt_def Let_def)
    apply (simp add: two_digits_def digit_char_lt10[OF a] digit_char_lt10[OF b])
    done
qed

lemma two_digits_inj: "a < 100 \<Longrightarrow> b < 100 \<Longrightarrow> two_digits a = two_digits b \<Longrightarrow> a = b"
  by (metis parseInt_two_digits number.inject of_nat_eq_iff)

lemma length_two_digits: "length (two_digits n) = 2"
  by (simp add: two_digits_def)

lemma two_digits_1: "two_digits 1 = ''01''" "two_digits (Suc 0) = ''01''"
  by (simp_all add: two_digits_def digit_char_def)

lemma padStart_two_digits_int:
  assumes "0 \<le> i" and "i < 100"
  shows "padStart 2 ''0'' (String (Num i)) = two_digits (nat i)"
  using padStart_two_digits[of "nat i"] assms by simp

subsection \<open>The maximum of parsed sequence numbers\<close>

lemma foldl_max2_Num: "foldl max2 (Num a) (map Num ns) = Num (Max (insert a (set ns)))"
proof (induction ns arbitrary: a)
  case Nil
  then show ?case by simp
next
  case (Cons n ns)
  have "Max (insert (max a n) (set ns)) = Max (insert a (insert n (set ns)))"
    by (metis List.finite_set Max_insert Max_singleton finite.insertI insert_not_empty max.assoc)
  with Cons show ?case by simp
qed

lemma Math_max_Num: "ns \<noteq> [] \<Longrightarrow> Math_max (map Num ns) = Num (Max (set ns))"
  by (cases ns) (simp_all add: Math_max_def foldl_max2_Num)

lemma Math_max_parsed:
  fixes rows :: "inventory_row list"
  assumes "rows \<noteq> []" and "\<forall>r \<in> set rows. \<exists>n. parseInt (sequenceNum r) = Num n"
  shows "Math_max (map (\<lambda>item. parseInt (sequenceNum item)) rows)
           = Num (Max {n. \<exists>r \<in> set rows. parseInt (sequenceNum r) = Num n})"
proof -
  have eq: "map (\<lambda>item. parseInt (sequenceNum item)) rows = map Num (map seq_of rows)"
    using assms(2) by (auto simp: seq_of_def)
  have "set (map seq_of rows) = {n. \<exists>r \<in> set rows. parseInt (sequenceNum r) = Num n}"
  proof (intro set_eqI iffI)
    fix n assume "n \<in> set (map seq_of rows)"
    then obtain r where r: "r \<in> set rows" "n = seq_of r" by auto
    with assms(2) obtain m where m: "parseInt (sequenceNum r) = Num m" by blast
    with r(2) have "m = n" by (simp add: seq_of_def)
    with r(1) m show "n \<in> {n. \<exists>r \<in> set rows. parseInt (sequenceNum r) = Num n}"
      by blast
  next
    fix n assume "n \<in> {n. \<exists>r \<in> set rows. parseInt (sequenceNum r) = Num n}"
    then obtain r where "r \<in> set rows" "parseInt (sequenceNum r) = Num n" by auto
    then have "r \<in> set rows" "seq_of r = n" by (simp_all add: seq_of_def)
    then show "n \<in> set (map seq_of rows)" by force
  qed
  moreover have "map seq_of rows \<noteq> []" using assms(1) by simp
  ultimately show ?thesis
    unfolding eq using Math_max_Num by metis
qed

lemma seq_numbers_findMany:
  "{n. \<exists>r \<in> set (findMany_startsWith k rows). parseInt (sequenceNum r) = Num n} = seq_numbers k rows"
  by (auto simp: seq_numbers_def findMany_startsWith_def)

lemma row_ok_seq:
  assumes "row_ok r"
  obtains n where "1 \<le> n" "n \<le> 99" "parseInt (sequenceNum r) = Num (int n)" "sequenceNum r = two_digits n"
proof -
  from assms obtain i where i: "parseInt (sequenceNum r) = Num i" "1 \<le> i" "i \<le> 99" "sequenceNum r = two_digits (nat i)"
    by (auto simp: row_ok_def split: number.splits)
  then show ?thesis using that[of "nat i"] by auto
qed

lemma seq_numbers_bounds:
  assumes "list_all row_ok rows" and "n \<in> seq_numbers k rows"
  shows "1 \<le> n \<and> n \<le> 99"
proof -
  from assms(2) obtain r where r: "r \<in> set rows" "parseInt (sequenceNum r) = Num n"
    by (auto simp: seq_numbers_def)
  with assms(1) have "row_ok r" by (simp add: list_all_iff)
  with r(2) show ?thesis by (auto simp: row_ok_def split: number.splits)
qed

lemma seq_numbers_finite: "finite (seq_numbers k rows)"
proof -
  have "seq_numbers k rows \<subseteq> seq_of ` set rows"
  proof
    fix n assume "n \<in> seq_numbers k rows"
    then obtain r where "r \<in> set rows" "parseInt (sequenceNum r) = Num n"
      by (auto simp: seq_numbers_def)
    then have "r \<in> set rows" "seq_of r = n" by (simp_all add: seq_of_def)
    then show "n \<in> seq_of ` set rows" by force
  qed
  then show ?thesis by (rule finite_subset) simp
qed


section \<open>The startsWith filter\<close>

lemma like_match_percent: "like_match ''%'' s"
  by (induction s) simp_all

lemma like_match_skip: "like_match q s \<Longrightarrow> like_match (CHR ''%'' # q) s"
  by (cases s) simp_all

lemma like_match_append: "like_match (k @ ''%'') (k @ s)"
proof (induction k)
  case Nil
  then show ?case using like_match_percent by simp
next
  case (Cons p k)
  then show ?case
    using like_match_skip[of "k @ ''%''" "k @ s"] by simp
qed

text \<open>An identifier that starts with the key is always found.\<close>

lemma startsWith_append: "startsWith k (k @ s)"
  by (simp add: startsWith_def like_match_append)






section \<open>The sequence number the handler computes\<close>

lemma all_parse:
  fixes rows :: "inventory_row list"
  assumes "list_all row_ok rows"
  shows "\<forall>r \<in> set (findMany_startsWith k rows). \<exists>n. parseInt (sequenceNum r) = Num n"
proof
  fix r assume "r \<in> set (findMany_startsWith k rows)"
  then have "r \<in> set rows" by (simp add: findMany_startsWith_def)
  with assms have "row_ok r" by (simp add: list_all_iff)
  then show "\<exists>n. parseInt (sequenceNum r) = Num n"
    by (auto simp: row_ok_def split: number.splits)
qed

lemma seq_numbers_empty_iff:
  fixes rows :: "inventory_row list"
  assumes "list_all row_ok rows"
  shows "seq_numbers k rows = {} \<longleftrightarrow> findMany_startsWith k rows = []"
proof
  assume e: "seq_numbers k rows = {}"
  show "findMany_startsWith k rows = []"
  proof (rule ccontr)
    assume "findMany_startsWith k rows \<noteq> []"
    then obtain r where r: "r \<in> set (findMany_startsWith k rows)"
      by (meson last_in_set)
    with all_parse[OF assms] obtain n where "parseInt (sequenceNum r) = Num n" by blast
    with r have "n \<in> seq_numbers k rows"
      by (auto simp: seq_numbers_def findMany_startsWith_def)
    with e show False by simp
  qed
next
  assume "findMany_startsWith k rows = []"
  then show "seq_numbers k rows = {}"
    by (auto simp: seq_numbers_def findMany_startsWith_def filter_empty_conv)
qed

text \<open>What the handler computes, on rows whose sequence numbers parse.\<close>

lemma compute_sequenceNum_parsed:
  fixes rows :: "inventory_row list"
  assumes "findMany_startsWith k rows \<noteq> []"
    and "\<forall>r \<in> set (findMany_startsWith k rows). \<exists>n. parseInt (sequenceNum r) = Num n"
  shows "compute_sequenceNum (findMany_startsWith k rows) =
           (if 99 \<le> Max (seq_numbers k rows) then None
            else Some (padStart 2 ''0'' (String (Num (Max (seq_numbers k rows) + 1)))))"
  using assms
  by (simp add: compute_sequenceNum_def Math_max_parsed seq_numbers_findMany)

lemma compute_sequenceNum_none: "compute_sequenceNum [] = Some ''01''"
  by (simp add: compute_sequenceNum_def)

lemma Max_seq_numbers:
  fixes rows :: "inventory_row list"
  assumes "list_all row_ok rows" and "findMany_startsWith k rows \<noteq> []"
  shows "Max (seq_numbers k rows) \<in> seq_numbers k rows"
    and "1 \<le> Max (seq_numbers k rows)" and "Max (seq_numbers k rows) \<le> 99"
proof -
  have ne: "seq_numbers k rows \<noteq> {}"
    using assms by (simp add: seq_numbers_empty_iff)
  then show m: "Max (seq_numbers k rows) \<in> seq_numbers k rows"
    by (simp add: seq_numbers_finite)
  from seq_numbers_bounds[OF assms(1) m]
  show "1 \<le> Max (seq_numbers k rows)" and "Max (seq_numbers k rows) \<le> 99" by simp_all
qed

lemma compute_sequenceNum_ok:
  fixes rows :: "inventory_row list"
  assumes "list_all row_ok rows" and "findMany_startsWith k rows \<noteq> []"
  shows "compute_sequenceNum (findMany_startsWith k rows) =
           (if 99 \<le> Max (seq_numbers k rows) then None
            else Some (two_digits (nat (Max (seq_numbers k rows) + 1))))"
proof -
  let ?m = "Max (seq_numbers k rows)"
  note b = Max_seq_numbers[OF assms]
  show ?thesis
  proof (cases "99 \<le> ?m")
    case True
    then show ?thesis
      by (simp add: compute_sequenceNum_parsed[OF assms(2) all_parse[OF assms(1)]])
  next
    case False
    with b have "0 \<le> ?m + 1" "?m + 1 < 100" by simp_all
    from padStart_two_digits_int[OF this] False show ?thesis
      by (simp only: compute_sequenceNum_parsed[OF assms(2) all_parse[OF assms(1)]] if_False)
  qed
qed

text \<open>Every issued sequence number is one of 01..99 and above all those in use.\<close>

lemma compute_sequenceNum_Some:
  fixes rows :: "inventory_row list"
  assumes "list_all row_ok rows" and "compute_sequenceNum (findMany_startsWith k rows) = Some s"
  obtains n where "1 \<le> n" "n \<le> 99" "s = two_digits n" "\<forall>m \<in> seq_numbers k rows. m < int n"
    "findMany_startsWith k rows = [] \<longrightarrow> n = 1"
    "findMany_startsWith k rows \<noteq> [] \<longrightarrow> int n = Max (seq_numbers k rows) + 1"
proof (cases "findMany_startsWith k rows = []")
  case True
  then have "seq_numbers k rows = {}" using assms(1) by (simp add: seq_numbers_empty_iff)
  with True assms(2) that[of 1] show ?thesis
    by (simp add: compute_sequenceNum_none two_digits_1)
next
  case False
  let ?m = "Max (seq_numbers k rows)"
  note b = Max_seq_numbers[OF assms(1) False]
  from assms(2) have lt: "\<not> 99 \<le> ?m" and s: "s = two_digits (nat (?m + 1))"
    by (simp_all add: compute_sequenceNum_ok[OF assms(1) False] split: if_splits)
  have "\<forall>m \<in> seq_numbers k rows. m < int (nat (?m + 1))"
    using b(2) by (auto simp: seq_numbers_finite intro: le_imp_less_Suc) 
  with that[of "nat (?m + 1)"] b lt s False show ?thesis by auto
qed

section \<open>The allocation handler and the ledger\<close>

lemma request_key_valid:
  assumes "new_Date h (body_purchaseDate b) = Some date"
  shows "request_key h b = compute_baseKey b date" and "request_dateCode h b = compute_dateCode date"
  using assms by (simp_all add: request_key_def request_dateCode_def compute_baseKey_def)

lemma POST_inventory_plan_Inr:
  assumes "POST_inventory_plan h d b = Inr item"
  obtains s where "\<not> missing_required b"
    "compute_sequenceNum (findMany_startsWith (request_key h b) (inventory_table d)) = Some s"
    "sku (item_row item) = request_key h b @ s"
    "sequenceNum (item_row item) = s"
    "typeCode (item_row item) = body_typeCode b" "colorCode (item_row item) = body_colorCode b"
    "patternCode (item_row item) = body_patternCode b" "sizeCode (item_row item) = body_sizeCode b"
    "dateCode (item_row item) = request_dateCode h b"
    "purchaseDate (item_row item) = new_Date h (body_purchaseDate b)"
    "purchaseCost (item_row item) = parseFloat (body_purchaseCost b)"
    "sellingPrice (item_row item) = parseFloat (body_sellingPrice b)"
    "findUnique code (type_table d) (body_typeCode b) = Some (item_type item)"
    "findUnique code (color_table d) (body_colorCode b) = Some (item_color item)"
    "findUnique code (pattern_table d) (body_patternCode b) = Some (item_pattern item)"
    "findUnique code (size_table d) (body_sizeCode b) = Some (item_size item)"
  using assms
  by (auto simp: POST_inventory_plan_def Let_def split: if_splits option.splits)

lemma POST_inventory_plan_Inl:
  assumes "POST_inventory_plan h d b = Inl r"
  shows "r = Failure 400 ''Missing required fields'' \<or>
         r = Failure 400 ''Maximum 99 items with same attributes per day reached'' \<or>
         r = Failure 400 ''Invalid code(s) provided''"
  using assms
  by (auto simp: POST_inventory_plan_def Let_def split: if_splits option.splits)

lemma POST_inventory_at_cases:
  assumes "POST_inventory_at h snapshot d b = (d', r)"
  obtains (early) "POST_inventory_plan h snapshot b = Inl r" "d' = d"
  | (refused) item where "POST_inventory_plan h snapshot b = Inr item"
      "\<not> valid_values (item_row item)"
      "r = Failure 500 ''Failed to create inventory item''" "d' = d"
  | (rejected) item where "POST_inventory_plan h snapshot b = Inr item"
      "valid_values (item_row item)"
      "sku (item_row item) \<in> set (map sku (inventory_table d))"
      "r = Failure 500 ''Failed to create inventory item''" "d' = d"
  | (created) item where "POST_inventory_plan h snapshot b = Inr item"
      "valid_values (item_row item)"
      "sku (item_row item) \<notin> set (map sku (inventory_table d))"
      "r = Reply 201 item" "d' = d\<lparr>inventory_table := inventory_table d @ [item_row item]\<rparr>"
  using assms
  by (auto simp: POST_inventory_at_def inventory_create_def table_create_def
      split: sum.splits if_splits)

lemma same_suffix:
  assumes "k @ s = k' @ s'" and "length s = length s'"
  shows "s = s'"
  using assms by (metis append_eq_append_conv)

text \<open>The identifier the handler computes is not in the ledger, and its row is well formed.\<close>

lemma plan_row_ok:
  assumes "ledger_ok d" and "POST_inventory_plan h d b = Inr item"
  shows "row_ok (item_row item)"
proof -
  from assms(2) obtain s where p:
    "compute_sequenceNum (findMany_startsWith (request_key h b) (inventory_table d)) = Some s"
    "sku (item_row item) = request_key h b @ s"
    "sequenceNum (item_row item) = s"
    "typeCode (item_row item) = body_typeCode b" "colorCode (item_row item) = body_colorCode b"
    "patternCode (item_row item) = body_patternCode b" "sizeCode (item_row item) = body_sizeCode b"
    "dateCode (item_row item) = request_dateCode h b"
    by (rule POST_inventory_plan_Inr)
  from assms(1) have ok: "list_all row_ok (inventory_table d)" by (simp add: ledger_ok_def)
  from compute_sequenceNum_Some[OF ok p(1)]
  obtain n where n: "1 \<le> n" "n \<le> 99" "s = two_digits n" by metis
  then have "parseInt s = Num (int n)" by (simp add: parseInt_two_digits)
  with n p show ?thesis
    by (simp add: row_ok_def request_key_def)
qed

lemma plan_fresh:
  assumes "ledger_ok d" and "POST_inventory_plan h d b = Inr item"
  shows "sku (item_row item) \<notin> set (map sku (inventory_table d))"
proof
  assume "sku (item_row item) \<in> set (map sku (inventory_table d))"
  then obtain r where r: "r \<in> set (inventory_table d)" "sku r = sku (item_row item)" by auto
  from assms(2) obtain s where p:
    "compute_sequenceNum (findMany_startsWith (request_key h b) (inventory_table d)) = Some s"
    "sku (item_row item) = request_key h b @ s"
    by (rule POST_inventory_plan_Inr)
  let ?k = "request_key h b"
  from assms(1) have ok: "list_all row_ok (inventory_table d)" by (simp add: ledger_ok_def)
  from compute_sequenceNum_Some[OF ok p(1)]
  obtain n where n: "s = two_digits n" "\<forall>m \<in> seq_numbers ?k (inventory_table d). m < int n"
    "n \<le> 99"
    by metis
  from ok r(1) have "row_ok r" by (simp add: list_all_iff)
  then have sk: "sku r = (typeCode r @ colorCode r @ patternCode r @ sizeCode r @ dateCode r) @ sequenceNum r"
    by (simp add: row_ok_def)
  from \<open>row_ok r\<close> obtain m where m: "parseInt (sequenceNum r) = Num (int m)" "sequenceNum r = two_digits m"
    by (rule row_ok_seq)
  from r(2) p(2) sk have "?k @ s = (typeCode r @ colorCode r @ patternCode r @ sizeCode r @ dateCode r) @ sequenceNum r"
    by simp
  then have "s = sequenceNum r"
    by (rule same_suffix) (simp add: n(1) m(2) length_two_digits)
  with n(1,3) have pm: "parseInt (sequenceNum r) = Num (int n)"
    by (simp add: parseInt_two_digits)
  have "startsWith ?k (sku r)" using r(2) p(2) by (simp add: startsWith_append)
  with r(1) pm have "int n \<in> seq_numbers ?k (inventory_table d)"
    by (auto simp: seq_numbers_def)
  with n(2) show False by auto
qed


text \<open>In a run of one request at a time the insert is never rejected as a duplicate.\<close>

lemma POST_inventory_cases:
  assumes "ledger_ok d" and "POST_inventory h d b = (d', r)"
  obtains (early) "POST_inventory_plan h d b = Inl r" "d' = d"
  | (refused) item where "POST_inventory_plan h d b = Inr item"
      "\<not> valid_values (item_row item)"
      "r = Failure 500 ''Failed to create inventory item''" "d' = d"
  | (created) item where "POST_inventory_plan h d b = Inr item"
      "valid_values (item_row item)"
      "sku (item_row item) \<notin> set (map sku (inventory_table d))"
      "r = Reply 201 item" "d' = d\<lparr>inventory_table := inventory_table d @ [item_row item]\<rparr>"
proof -
  from assms(2) have "POST_inventory_at h d d b = (d', r)" by (simp add: POST_inventory_def)
  then show ?thesis
  proof (cases rule: POST_inventory_at_cases)
    case early
    then show ?thesis by (rule that(1))
  next
    case (refused item)
    then show ?thesis by (rule that(2))
  next
    case (rejected item)
    with plan_fresh[OF assms(1) rejected(1)] show ?thesis by simp
  next
    case (created item)
    then show ?thesis by (rule that(3))
  qed
qed


lemma POST_inventory_Reply:
  assumes "POST_inventory h d b = (d', Reply st item)"
  shows "POST_inventory_plan h d b = Inr item" and "st = 201"
    and "d' = d\<lparr>inventory_table := inventory_table d @ [item_row item]\<rparr>"
    and "sku (item_row item) \<notin> set (map sku (inventory_table d))"
    and "valid_values (item_row item)"
proof -
  from assms have a: "POST_inventory_at h d d b = (d', Reply st item)" by (simp add: POST_inventory_def)
  have "POST_inventory_plan h d b = Inr item \<and> st = 201 \<and>
        d' = d\<lparr>inventory_table := inventory_table d @ [item_row item]\<rparr> \<and>
        sku (item_row item) \<notin> set (map sku (inventory_table d)) \<and> valid_values (item_row item)"
    using a
  proof (cases rule: POST_inventory_at_cases)
    case early
    then show ?thesis using POST_inventory_plan_Inl by fastforce
  next
    case (refused item')
    then show ?thesis by simp
  next
    case (rejected item')
    then show ?thesis by simp
  next
    case (created item')
    then show ?thesis by simp
  qed
  then show "POST_inventory_plan h d b = Inr item" and "st = 201"
    and "d' = d\<lparr>inventory_table := inventory_table d @ [item_row item]\<rparr>"
    and "sku (item_row item) \<notin> set (map sku (inventory_table d))"
    and "valid_values (item_row item)" by simp_all
qed

text \<open>A successful call had a valid date.\<close>

lemma POST_inventory_Reply_date:
  assumes "POST_inventory h d b = (d', Reply st item)"
  obtains date where "new_Date h (body_purchaseDate b) = Some date"
    "request_key h b = compute_baseKey b date"
proof -
  from POST_inventory_Reply(1)[OF assms]
  have "purchaseDate (item_row item) = new_Date h (body_purchaseDate b)"
    by (rule POST_inventory_plan_Inr)
  with POST_inventory_Reply(5)[OF assms]
  have "new_Date h (body_purchaseDate b) \<noteq> None"
    by (simp add: valid_values_def)
  then obtain date where "new_Date h (body_purchaseDate b) = Some date" by auto
  with request_key_valid(1)[OF this] that show ?thesis by blast
qed

lemma POST_inventory_created:
  assumes "\<not> missing_required b" and "new_Date h (body_purchaseDate b) = Some date"
    and "compute_sequenceNum (findMany_startsWith (compute_baseKey b date) (inventory_table d)) = Some s"
    and "findUnique code (type_table d) (body_typeCode b) = Some t"
    and "findUnique code (color_table d) (body_colorCode b) = Some c"
    and "findUnique code (pattern_table d) (body_patternCode b) = Some p"
    and "findUnique code (size_table d) (body_sizeCode b) = Some z"
    and "compute_baseKey b date @ s \<notin> set (map sku (inventory_table d))"
    and "isFinite (parseFloat (body_purchaseCost b))" and "isFinite (parseFloat (body_sellingPrice b))"
    and "row = \<lparr>sku = compute_baseKey b date @ s,
                typeCode = body_typeCode b, colorCode = body_colorCode b,
                patternCode = body_patternCode b, sizeCode = body_sizeCode b,
                dateCode = compute_dateCode date, sequenceNum = s,
                displayName = compute_displayName t c p z, purchaseDate = Some date,
                purchaseCost = parseFloat (body_purchaseCost b),
                sellingPrice = parseFloat (body_sellingPrice b),
                syncedToLoyverse = False\<rparr>"
  shows "POST_inventory h d b =
           (d\<lparr>inventory_table := inventory_table d @ [row]\<rparr>,
            Reply 201 \<lparr>item_row = row, item_type = t, item_color = c, item_pattern = p, item_size = z\<rparr>)"
  using assms
  by (simp add: POST_inventory_def POST_inventory_at_def POST_inventory_plan_def Let_def
      inventory_create_def valid_values_def table_create_def request_key_valid)

section \<open>Evaluating the example\<close>

lemma seed_db_eq:
  "seed_db = \<lparr>type_table = seed_types, color_table = seed_colors, pattern_table = seed_patterns,
              size_table = seed_sizes, inventory_table = []\<rparr>"
  by (simp add: seed_db_def seed_def empty_db_def table_upsert_def seed_types_def seed_colors_def seed_patterns_def seed_sizes_def)


lemma parse_iso_date_ex: "parse_iso_date ''2025-10-17'' = Some (2025, 10, 17)"
  by (simp add: parse_iso_date_def is_digit_def digits_value_def digit_value_def)

lemma new_Date_utc: "new_Date utc_host ''2025-10-17'' = Some dress_date"
  by (simp add: new_Date_def parse_iso_date_ex utc_host_def days_in_month_def dress_date_def)

lemma new_Date_new_york:
  "new_Date new_york_host ''2025-10-17'' = Some \<lparr>getFullYear = 2025, getMonth = 9, getDate = 16\<rparr>"
  by (simp add: new_Date_def parse_iso_date_ex new_york_host_def days_in_month_def previous_day_def)

lemma dateCode_ex: "compute_dateCode dress_date = ''251017''"
  by (simp add: dress_date_def compute_dateCode_def dateCode_from_def slice_def padStart_def
        decimal.simps digit_char_def)

lemma baseKey_ex: "compute_baseKey dress_body dress_date = ''DRBLFLMD251017''"
  by (simp add: compute_baseKey_def dateCode_ex dress_body_def)

lemma seed_lookups:
  "findUnique code (type_table seed_db) ''DR'' = Some \<lparr>code = ''DR'', name = ''Dress''\<rparr>"
  "findUnique code (color_table seed_db) ''BL'' = Some \<lparr>code = ''BL'', name = ''Blue'', hexValue = Some ''#0000FF''\<rparr>"
  "findUnique code (pattern_table seed_db) ''FL'' = Some \<lparr>code = ''FL'', name = ''Floral''\<rparr>"
  "findUnique code (size_table seed_db) ''MD'' = Some \<lparr>code = ''MD'', name = ''Medium'', abbrev = ''M'', sortOrder = 3\<rparr>"
  by (simp_all add: seed_db_eq findUnique_def seed_types_def seed_colors_def seed_patterns_def seed_sizes_def)

lemmas eval_double = exponent_bits_def fraction_bits_def sign_bit_def is_zero_def is_NaN_def
  isFinite_def falsy_amount_def parseFloat_def

lemma dress_body_simps:
  "\<not> missing_required dress_body" "new_Date utc_host (body_purchaseDate dress_body) = Some dress_date"
  "body_typeCode dress_body = ''DR''" "body_colorCode dress_body = ''BL''"
  "body_patternCode dress_body = ''FL''" "body_sizeCode dress_body = ''MD''"
  "parseFloat (body_purchaseCost dress_body) = 0x4028000000000000"
  "parseFloat (body_sellingPrice dress_body) = 0x4038800000000000"
  "isFinite (parseFloat (body_purchaseCost dress_body))"
  "isFinite (parseFloat (body_sellingPrice dress_body))"
  by (simp_all add: dress_body_def missing_required_def eval_double new_Date_utc)

lemma dress_amounts: "double_value 0x4028000000000000 = 12" "double_value 0x4038800000000000 = 49 / 2"
  by (simp_all add: double_value_def exponent_bits_def fraction_bits_def sign_bit_def Let_def)

lemma seed_with_simps:
  "type_table (seed_with rows) = type_table seed_db" "color_table (seed_with rows) = color_table seed_db"
  "pattern_table (seed_with rows) = pattern_table seed_db" "size_table (seed_with rows) = size_table seed_db"
  "inventory_table (seed_with rows) = rows"
  "(seed_with rows)\<lparr>inventory_table := rows'\<rparr> = seed_with rows'"
  by (simp_all add: seed_with_def)

lemma seed_with_Nil: "seed_with [] = seed_db"
  by (simp add: seed_with_def seed_db_eq)

lemma dress_POST:
  assumes "compute_sequenceNum (findMany_startsWith ''DRBLFLMD251017'' rows) = Some s"
    and "''DRBLFLMD251017'' @ s \<notin> set (map sku rows)"
  shows "POST_inventory utc_host (seed_with rows) dress_body =
           (seed_with (rows @ [dress_row s]), Reply 201 (dress_item s))"
proof -
  have s: "compute_sequenceNum (findMany_startsWith (compute_baseKey dress_body dress_date)
             (inventory_table (seed_with rows))) = Some s"
    using assms(1) by (simp add: baseKey_ex seed_with_simps)
  have f: "compute_baseKey dress_body dress_date @ s \<notin> set (map sku (inventory_table (seed_with rows)))"
    using assms(2) by (simp add: baseKey_ex seed_with_simps)
  show ?thesis
    by (rule POST_inventory_created[OF dress_body_simps(1,2) s _ _ _ _ f dress_body_simps(9,10), THEN trans])
       (simp_all add: dress_body_simps seed_with_simps seed_lookups baseKey_ex dateCode_ex
          dress_row_def dress_item_def compute_displayName_def)
qed

lemmas eval_seq = findMany_startsWith_def startsWith_def ascii_fold_def compute_sequenceNum_def
  Math_max_def parseInt_def is_white_def is_digit_def digits_value_def digit_value_def
  padStart_def decimal.simps digit_char_def

lemma ex_first: "POST_inventory utc_host seed_db dress_body = (seed_with [dress_row ''01''], Reply 201 (dress_item ''01''))"
  using dress_POST[of "[]" "''01''"] by (simp add: seed_with_Nil eval_seq)

lemma ex_second: "POST_inventory utc_host (seed_with [dress_row ''01'']) dress_body = (seed_with [dress_row ''01'', dress_row ''02''], Reply 201 (dress_item ''02''))"
  using dress_POST[of "[dress_row ''01'']" "''02''"] by (simp add: eval_seq dress_row_def)

lemma ex_tenth: "POST_inventory utc_host (seed_with (map dress_row [''01'', ''02'', ''03'', ''04'', ''05'', ''06'', ''07'', ''08'', ''09''])) dress_body
   = (seed_with (map dress_row [''01'', ''02'', ''03'', ''04'', ''05'', ''06'', ''07'', ''08'', ''09'', ''10'']), Reply 201 (dress_item ''10''))"
  using dress_POST[of "map dress_row [''01'', ''02'', ''03'', ''04'', ''05'', ''06'', ''07'', ''08'', ''09'']" "''10''"] by (simp add: eval_seq dress_row_def)

section \<open>Determinism of composition\<close>

text \<open>
  The date segment of a date-only ISO string of a calendar day, by the side of Greenwich
  the host is on: the day itself at UTC and east of it, the day before west of it.
\<close>

lemma new_Date_east:
  assumes "parse_iso_date s = Some (y, m, d)" and "1 \<le> m" "m \<le> 12" "1 \<le> d" "d \<le> days_in_month y m"
    and "0 \<le> utc_offset h"
  shows "new_Date h s = Some \<lparr>getFullYear = y, getMonth = m - 1, getDate = d\<rparr>"
  using assms by (simp add: new_Date_def)

lemma new_Date_west:
  assumes "parse_iso_date s = Some (y, m, d)" and "1 \<le> m" "m \<le> 12" "1 < d" "d \<le> days_in_month y m"
    and "utc_offset h < 0"
  shows "new_Date h s = Some \<lparr>getFullYear = y, getMonth = m - 1, getDate = d - 1\<rparr>"
  using assms by (simp add: new_Date_def previous_day_def)

lemma inventory_seed_db: "inventory_table seed_db = []"
  by (simp add: seed_db_eq)

lemma dateCode_16:
  "compute_dateCode \<lparr>getFullYear = 2025, getMonth = 9, getDate = 16\<rparr> = ''251016''"
  by (simp add: compute_dateCode_def dateCode_from_def slice_def padStart_def
        decimal.simps digit_char_def)

lemma request_key_utc: "request_key utc_host dress_body = ''DRBLFLMD251017''"
  using request_key_valid(1)[OF dress_body_simps(2)] by (simp add: baseKey_ex)

lemma new_Date_new_york_body:
  "new_Date new_york_host (body_purchaseDate dress_body) =
     Some \<lparr>getFullYear = 2025, getMonth = 9, getDate = 16\<rparr>"
  by (simp add: dress_body_def new_Date_new_york)

lemma request_key_new_york: "request_key new_york_host dress_body = ''DRBLFLMD251016''"
  using request_key_valid(1)[OF new_Date_new_york_body]
  by (simp add: compute_baseKey_def dateCode_16 dress_body_def)

lemma ex_first_new_york:
  "POST_inventory new_york_host seed_db dress_body =
     (seed_with [(dress_row ''01'')\<lparr>sku := ''DRBLFLMD25101601'', dateCode := ''251016'',
          purchaseDate := Some \<lparr>getFullYear = 2025, getMonth = 9, getDate = 16\<rparr>\<rparr>],
      Reply 201 ((dress_item ''01'')\<lparr>item_row :=
        (dress_row ''01'')\<lparr>sku := ''DRBLFLMD25101601'', dateCode := ''251016'',
          purchaseDate := Some \<lparr>getFullYear = 2025, getMonth = 9, getDate = 16\<rparr>\<rparr>\<rparr>))"
proof -
  let ?date = "\<lparr>getFullYear = 2025, getMonth = 9, getDate = 16\<rparr>"
  have k: "compute_baseKey dress_body ?date = ''DRBLFLMD251016''"
    by (simp add: compute_baseKey_def dateCode_16 dress_body_def)
  have s: "compute_sequenceNum (findMany_startsWith (compute_baseKey dress_body ?date)
             (inventory_table seed_db)) = Some ''01''"
    by (simp add: inventory_seed_db findMany_startsWith_def compute_sequenceNum_def)
  have f: "compute_baseKey dress_body ?date @ ''01'' \<notin> set (map sku (inventory_table seed_db))"
    by (simp add: inventory_seed_db)
  show ?thesis
    by (rule POST_inventory_created[OF dress_body_simps(1) new_Date_new_york_body s _ _ _ _ f
          dress_body_simps(9,10), THEN trans])
       (simp_all add: dress_body_simps seed_lookups k dateCode_16 dress_row_def dress_item_def
          compute_displayName_def seed_with_def inventory_seed_db)
qed

text \<open>
  C7 (determinism of composition). The request with the codes DR, BL, FL, MD and the
  purchase date 2025-10-17, sent to the seeded database with an empty ledger. On a host at
  UTC the AllocationKey is DRBLFLMD251017 and the identifier returned DRBLFLMD25101701. On a
  host four hours behind UTC the \<^verbatim>\<open>Date\<close> built from the same string reads 16 October in
  local time: the AllocationKey is DRBLFLMD251016 and the identifier DRBLFLMD25101601.
\<close>

theorem date_segment_follows_the_host_time_zone:
  "body_purchaseDate dress_body = ''2025-10-17'' \<and>
   request_key utc_host dress_body = ''DRBLFLMD251017'' \<and>
   map sku (returned_rows [snd (POST_inventory utc_host seed_db dress_body)]) =
     [''DRBLFLMD25101701''] \<and>
   new_Date new_york_host ''2025-10-17'' =
     Some \<lparr>getFullYear = 2025, getMonth = 9, getDate = 16\<rparr> \<and>
   request_key new_york_host dress_body = ''DRBLFLMD251016'' \<and>
   map sku (returned_rows [snd (POST_inventory new_york_host seed_db dress_body)]) =
     [''DRBLFLMD25101601'']"
  unfolding ex_first ex_first_new_york
  by (simp add: request_key_utc request_key_new_york new_Date_new_york)
     (simp add: dress_body_def dress_item_def dress_row_def)

section \<open>Sequence-number computation\<close>




lemma ex_add_lowercase_type:
  "POST_code_library (seed_with [dress_row ''01'']) ''types''
     \<lparr>body_code = ''dr'', body_name = ''dress'', body_hexValue = [], body_abbrev = []\<rparr> =
   ((seed_with [dress_row ''01''])\<lparr>type_table := type_table seed_db @ [\<lparr>code = ''dr'', name = ''dress''\<rparr>]\<rparr>,
    Reply 200 (CodeItem \<lparr>code = ''dr'', name = ''dress''\<rparr>))"
  by (simp add: POST_code_library_def parse_category_def code_exists_def create_code_def Let_def
        findUnique_def table_create_def seed_with_def seed_db_eq seed_types_def)

lemma ex_lowercase_request:
  "POST_inventory utc_host
     ((seed_with [dress_row ''01''])\<lparr>type_table := type_table seed_db @ [\<lparr>code = ''dr'', name = ''dress''\<rparr>]\<rparr>)
     (dress_body\<lparr>body_typeCode := ''dr''\<rparr>) =
   ((seed_with [dress_row ''01'',
       (dress_row ''02'')\<lparr>sku := ''drBLFLMD25101702'', typeCode := ''dr'',
          displayName := ''dress, Blue Floral, M''\<rparr>])
      \<lparr>type_table := type_table seed_db @ [\<lparr>code = ''dr'', name = ''dress''\<rparr>]\<rparr>,
    Reply 201 ((dress_item ''02'')
      \<lparr>item_row := (dress_row ''02'')\<lparr>sku := ''drBLFLMD25101702'', typeCode := ''dr'',
          displayName := ''dress, Blue Floral, M''\<rparr>,
       item_type := \<lparr>code = ''dr'', name = ''dress''\<rparr>\<rparr>))"
proof -
  let ?b = "dress_body\<lparr>body_typeCode := ''dr''\<rparr>"
  let ?d = "(seed_with [dress_row ''01''])\<lparr>type_table := type_table seed_db @ [\<lparr>code = ''dr'', name = ''dress''\<rparr>]\<rparr>"
  have m: "\<not> missing_required ?b"
    using dress_body_simps(1) by (simp add: missing_required_def)
  have dt: "new_Date utc_host (body_purchaseDate ?b) = Some dress_date"
    using dress_body_simps(2) by simp
  have k: "compute_baseKey ?b dress_date = ''drBLFLMD251017''"
    by (simp add: compute_baseKey_def dateCode_ex dress_body_def)
  have s: "compute_sequenceNum (findMany_startsWith (compute_baseKey ?b dress_date)
             (inventory_table ?d)) = Some ''02''"
    by (simp add: k seed_with_simps eval_seq dress_row_def)
  have f: "compute_baseKey ?b dress_date @ ''02'' \<notin> set (map sku (inventory_table ?d))"
    by (simp add: k seed_with_simps dress_row_def)
  have t: "findUnique code (type_table ?d) (body_typeCode ?b) = Some \<lparr>code = ''dr'', name = ''dress''\<rparr>"
    by (simp add: findUnique_def seed_db_eq seed_types_def)
  have fin: "isFinite (parseFloat (body_purchaseCost ?b))" "isFinite (parseFloat (body_sellingPrice ?b))"
    using dress_body_simps(9,10) by simp_all
  show ?thesis
    by (rule POST_inventory_created[OF m dt s t _ _ _ f fin, THEN trans])
       (simp_all add: dress_body_simps seed_with_simps seed_lookups k dateCode_ex dress_row_def
          dress_item_def compute_displayName_def,
        simp_all add: seed_with_def dress_body_def)
qed

text \<open>
  C2 (sequence-number computation). The catalog, which does not enforce upper case, has
  been given the type code dr; the ledger holds DRBLFLMD25101701 only. No identifier of
  the ledger shares the prefix drBLFLMD251017 of the request with the codes dr, BL, FL, MD,
  yet the query of the handler, which compares letters without regard to case, finds
  DRBLFLMD25101701, and the call is issued the sequence number 02 and the identifier
  drBLFLMD25101702.
\<close>

theorem lookup_finds_an_identifier_of_another_key:
  "fst (POST_code_library (seed_with [dress_row ''01'']) ''types''
     \<lparr>body_code = ''dr'', body_name = ''dress'', body_hexValue = [], body_abbrev = []\<rparr>) =
   (seed_with [dress_row ''01''])\<lparr>type_table := type_table seed_db @ [\<lparr>code = ''dr'', name = ''dress''\<rparr>]\<rparr> \<and>
   map sku (inventory_table
     ((seed_with [dress_row ''01''])\<lparr>type_table := type_table seed_db @ [\<lparr>code = ''dr'', name = ''dress''\<rparr>]\<rparr>)) =
     [''DRBLFLMD25101701''] \<and>
   request_key utc_host (dress_body\<lparr>body_typeCode := ''dr''\<rparr>) = ''drBLFLMD251017'' \<and>
   filter (\<lambda>r. prefix ''drBLFLMD251017'' (sku r)) (inventory_table
     ((seed_with [dress_row ''01''])\<lparr>type_table := type_table seed_db @ [\<lparr>code = ''dr'', name = ''dress''\<rparr>]\<rparr>)) = [] \<and>
   map sequenceNum (returned_rows [snd (POST_inventory utc_host
     ((seed_with [dress_row ''01''])\<lparr>type_table := type_table seed_db @ [\<lparr>code = ''dr'', name = ''dress''\<rparr>]\<rparr>)
     (dress_body\<lparr>body_typeCode := ''dr''\<rparr>))]) = [''02''] \<and>
   map sku (returned_rows [snd (POST_inventory utc_host
     ((seed_with [dress_row ''01''])\<lparr>type_table := type_table seed_db @ [\<lparr>code = ''dr'', name = ''dress''\<rparr>]\<rparr>)
     (dress_body\<lparr>body_typeCode := ''dr''\<rparr>))]) = [''drBLFLMD25101702'']"
proof -
  have k: "request_key utc_host (dress_body\<lparr>body_typeCode := ''dr''\<rparr>) = ''drBLFLMD251017''"
    using request_key_valid(1)[of utc_host "dress_body\<lparr>body_typeCode := ''dr''\<rparr>" dress_date]
      dress_body_simps(2)
    by (simp add: compute_baseKey_def dateCode_ex) (simp add: dress_body_def)
  show ?thesis
    unfolding ex_add_lowercase_type ex_lowercase_request k
    by (simp add: seed_with_simps dress_row_def)
qed

section \<open>Uniqueness of identifiers\<close>

lemma returned_rows_Cons: "returned_rows (r # rs) = returned_rows [r] @ returned_rows rs"
  by (cases r) simp_all

lemma POST_inventory_skus:
  assumes "distinct (map sku (inventory_table d))" and "POST_inventory h d b = (d', r)"
  shows "distinct (map sku (inventory_table d'))"
    and "map sku (inventory_table d') = map sku (inventory_table d) @ map sku (returned_rows [r])"
proof -
  have "distinct (map sku (inventory_table d')) \<and>
         map sku (inventory_table d') = map sku (inventory_table d) @ map sku (returned_rows [r])"
  proof -
  from assms(2) have "POST_inventory_at h d d b = (d', r)" by (simp add: POST_inventory_def)
  then show ?thesis
  proof (cases rule: POST_inventory_at_cases)
    case early
    with POST_inventory_plan_Inl[OF early(1)] assms(1) show ?thesis by auto
  next
    case (refused item)
    with assms(1) show ?thesis by simp
  next
    case (rejected item)
    with assms(1) show ?thesis by simp
  next
    case (created item)
    with assms(1) show ?thesis by simp
  qed
  qed
  then show "distinct (map sku (inventory_table d'))"
    and "map sku (inventory_table d') = map sku (inventory_table d) @ map sku (returned_rows [r])"
    by blast+
qed

lemma POST_inventory_all_skus:
  assumes "distinct (map sku (inventory_table d))" and "POST_inventory_all h d bs = (d', rs)"
  shows "distinct (map sku (inventory_table d')) \<and>
         map sku (inventory_table d') = map sku (inventory_table d) @ map sku (returned_rows rs)"
  using assms
proof (induction bs arbitrary: d d' rs)
  case Nil
  then show ?case by simp
next
  case (Cons b bs)
  obtain d1 r where one: "POST_inventory h d b = (d1, r)" by (cases "POST_inventory h d b")
  obtain d2 rs' where rest: "POST_inventory_all h d1 bs = (d2, rs')" by (cases "POST_inventory_all h d1 bs")
  from Cons.prems(2) one rest have eq: "d' = d2" "rs = r # rs'" by simp_all
  note s1 = POST_inventory_skus[OF Cons.prems(1) one]
  note ih = Cons.IH[OF s1(1) rest]
  have "map sku (inventory_table d2) =
          map sku (inventory_table d) @ map sku (returned_rows [r]) @ map sku (returned_rows rs')"
    using ih s1(2) by (simp only: append_assoc)
  also have "map sku (returned_rows [r]) @ map sku (returned_rows rs') = map sku (returned_rows (r # rs'))"
    by (subst (2) returned_rows_Cons) (simp only: map_append)
  finally show ?case using ih eq by blast
qed

lemma create_code_inventory:
  "inventory_table (fst (create_code d cat b)) = inventory_table d"
proof (cases cat)
  case Types
  then show ?thesis
    by (simp add: create_code_def failed_to_add_def Let_def split: option.split)
next
  case Colors
  then show ?thesis
    by (simp add: create_code_def failed_to_add_def Let_def split: option.split)
next
  case Patterns
  then show ?thesis
    by (simp add: create_code_def failed_to_add_def Let_def split: option.split)
next
  case Sizes
  then show ?thesis
    by (simp add: create_code_def failed_to_add_def Let_def split: option.split)
qed

lemma POST_code_library_inventory:
  "inventory_table (fst (POST_code_library d category b)) = inventory_table d"
  by (simp add: POST_code_library_def create_code_inventory split: option.split)

lemma delete_code_inventory:
  "delete_code d cat c = Some d' \<Longrightarrow> inventory_table d' = inventory_table d"
  by (cases cat) (auto simp: delete_code_def)

lemma DELETE_code_library_inventory:
  "inventory_table (fst (DELETE_code_library d category c)) = inventory_table d"
  by (simp add: DELETE_code_library_def Let_def delete_code_inventory split: option.split)

lemma DELETE_inventory_distinct:
  "distinct (map sku (inventory_table d)) \<Longrightarrow> distinct (map sku (inventory_table (fst (DELETE_inventory d s))))"
  by (simp add: DELETE_inventory_def table_delete_def distinct_map_filter)

lemma handle_distinct:
  assumes "distinct (map sku (inventory_table d))"
  shows "distinct (map sku (inventory_table (handle h d q)))"
proof (cases q)
  case (PostInventory b)
  obtain d' r where "POST_inventory h d b = (d', r)" by (cases "POST_inventory h d b")
  with POST_inventory_skus(1)[OF assms this] PostInventory show ?thesis by simp
next
  case (DeleteInventory s)
  with DELETE_inventory_distinct[OF assms] show ?thesis by simp
next
  case (PostCodeLibrary category b)
  with assms show ?thesis by (simp add: POST_code_library_inventory)
next
  case (DeleteCodeLibrary category c)
  with assms show ?thesis by (simp add: DELETE_code_library_inventory)
qed

lemma serve_distinct:
  "distinct (map sku (inventory_table d)) \<Longrightarrow> distinct (map sku (inventory_table (serve h d qs)))"
  unfolding serve_def
  by (induction qs arbitrary: d) (simp_all add: handle_distinct)


lemma POST_inventory_keeps:
  assumes "x \<in> set (map sku (inventory_table d))"
  shows "x \<in> set (map sku (inventory_table (fst (POST_inventory h d b))))"
proof -
  obtain d' r where one: "POST_inventory h d b = (d', r)" by (cases "POST_inventory h d b")
  then have "POST_inventory_at h d d b = (d', r)" by (simp add: POST_inventory_def)
  then have "x \<in> set (map sku (inventory_table d'))"
    using assms by (cases rule: POST_inventory_at_cases) simp_all
  with one show ?thesis by simp
qed

lemma handle_keeps:
  assumes "x \<in> set (map sku (inventory_table d))" and "q \<noteq> DeleteInventory x"
  shows "x \<in> set (map sku (inventory_table (handle h d q)))"
proof (cases q)
  case (PostInventory b)
  with POST_inventory_keeps[OF assms(1)] show ?thesis by simp
next
  case (DeleteInventory s)
  with assms show ?thesis by (auto simp: DELETE_inventory_def table_delete_def)
next
  case (PostCodeLibrary category b)
  with assms show ?thesis by (simp add: POST_code_library_inventory)
next
  case (DeleteCodeLibrary category c)
  with assms show ?thesis by (simp add: DELETE_code_library_inventory)
qed

lemma serve_keeps:
  "x \<in> set (map sku (inventory_table d)) \<Longrightarrow> DeleteInventory x \<notin> set qs \<Longrightarrow>
   x \<in> set (map sku (inventory_table (serve h d qs)))"
  unfolding serve_def
proof (induction qs arbitrary: d)
  case Nil
  then show ?case by simp
next
  case (Cons q qs)
  from Cons.prems have "x \<in> set (map sku (inventory_table (handle h d q)))"
    by (intro handle_keeps) auto
  from Cons.IH[OF this] Cons.prems(2) show ?case by simp
qed

lemma identifier_not_returned_again:
  assumes "POST_inventory h d b1 = (d1, Reply st1 item1)"
    and "POST_inventory h (serve h d1 qs) b2 = (d2, Reply st2 item2)"
    and "DeleteInventory (sku (item_row item1)) \<notin> set qs"
  shows "sku (item_row item1) \<noteq> sku (item_row item2)"
proof -
  from POST_inventory_Reply(3)[OF assms(1)]
  have "sku (item_row item1) \<in> set (map sku (inventory_table d1))" by simp
  from serve_keeps[OF this assms(3)]
  have "sku (item_row item1) \<in> set (map sku (inventory_table (serve h d1 qs)))" .
  with POST_inventory_Reply(4)[OF assms(2)] show ?thesis by metis
qed

lemma ex_run_two:
  "POST_inventory_all utc_host seed_db [dress_body, dress_body] =
     (seed_with [dress_row ''01'', dress_row ''02''], [Reply 201 (dress_item ''01''), Reply 201 (dress_item ''02'')])"
  by (simp add: ex_first ex_second)

lemma ex_delete_only:
  "DELETE_inventory (seed_with [dress_row ''01'']) ''DRBLFLMD25101701'' = (seed_with [], Reply 200 True)"
  by (simp add: DELETE_inventory_def table_delete_def findUnique_def seed_with_def dress_row_def)

text \<open>
  C1 (uniqueness of identifiers). From a ledger without duplicate identifiers, in every run
  of Allocate calls the identifiers returned by the successful calls are pairwise different
  and different from every identifier already in the ledger, and the ledger after the run
  holds each identifier once; the same holds of the ledger after any run of requests of
  the four routes. On a ledger the allocator wrote, the identifier a call computes is
  itself not in the ledger, before the insert is attempted. Two successful Allocate calls
  with any requests of the four routes served between them return different identifiers,
  unless one of the requests between them is the deletion of the identifier the first
  call returned.
\<close>

theorem identifiers_are_unique_until_deleted:
  assumes "distinct (map sku (inventory_table d))"
  shows "distinct (map sku (returned_rows (snd (POST_inventory_all h d bs)))) \<and>
         set (map sku (returned_rows (snd (POST_inventory_all h d bs)))) \<inter>
           set (map sku (inventory_table d)) = {} \<and>
         distinct (map sku (inventory_table (fst (POST_inventory_all h d bs)))) \<and>
         distinct (map sku (inventory_table (serve h d qs))) \<and>
         (ledger_ok d \<and> POST_inventory_plan h d b = Inr item \<longrightarrow>
            sku (item_row item) \<notin> set (map sku (inventory_table d))) \<and>
         (POST_inventory h d b1 = (d1, Reply st1 item1) \<and>
          POST_inventory h (serve h d1 between) b2 = (d2, Reply st2 item2) \<and>
          DeleteInventory (sku (item_row item1)) \<notin> set between \<longrightarrow>
            sku (item_row item1) \<noteq> sku (item_row item2))"
proof -
  obtain d' rs where run: "POST_inventory_all h d bs = (d', rs)" by (cases "POST_inventory_all h d bs")
  note a = POST_inventory_all_skus[OF assms run]
  then have da: "distinct (map sku (inventory_table d) @ map sku (returned_rows rs))"
    by metis
  have 1: "distinct (map sku (returned_rows rs))"
    using da by (simp only: distinct_append)
  have 2: "set (map sku (returned_rows rs)) \<inter> set (map sku (inventory_table d)) = {}"
    using da by (simp only: distinct_append) blast
  have 3: "distinct (map sku (inventory_table d'))" using a by blast
  have 4: "ledger_ok d \<and> POST_inventory_plan h d b = Inr item \<longrightarrow>
            sku (item_row item) \<notin> set (map sku (inventory_table d))"
    using plan_fresh[of d h b item] by blast
  have 5: "POST_inventory h d b1 = (d1, Reply st1 item1) \<and>
          POST_inventory h (serve h d1 between) b2 = (d2, Reply st2 item2) \<and>
          DeleteInventory (sku (item_row item1)) \<notin> set between \<longrightarrow>
            sku (item_row item1) \<noteq> sku (item_row item2)"
    using identifier_not_returned_again[of h d b1 d1 st1 item1 between b2 d2 st2 item2] by blast
  from 1 2 3 4 5 serve_distinct[OF assms, of h qs] show ?thesis
    by (simp only: run fst_conv snd_conv simp_thms)
qed

theorem identifiers_are_unique_until_deleted_witness:
  "distinct (map sku (inventory_table seed_db)) \<and>
   map sku (returned_rows (snd (POST_inventory_all utc_host seed_db [dress_body, dress_body]))) =
     [''DRBLFLMD25101701'', ''DRBLFLMD25101702''] \<and>
   distinct (map sku (returned_rows (snd (POST_inventory_all utc_host seed_db [dress_body, dress_body])))) \<and>
   distinct (map sku (inventory_table (serve utc_host seed_db [PostInventory dress_body, DeleteInventory ''DRBLFLMD25101701'']))) \<and>
   ledger_ok seed_db \<and> POST_inventory_plan utc_host seed_db dress_body = Inr (dress_item ''01'') \<and>
   sku (item_row (dress_item ''01'')) \<notin> set (map sku (inventory_table seed_db)) \<and>
   POST_inventory utc_host seed_db dress_body = (seed_with [dress_row ''01''], Reply 201 (dress_item ''01'')) \<and>
   POST_inventory utc_host (serve utc_host (seed_with [dress_row ''01'']) [DeleteInventory ''DRBLFLMD25101799'']) dress_body =
     (seed_with [dress_row ''01'', dress_row ''02''], Reply 201 (dress_item ''02'')) \<and>
   DeleteInventory (sku (item_row (dress_item ''01''))) \<notin> set [DeleteInventory ''DRBLFLMD25101799''] \<and>
   sku (item_row (dress_item ''01'')) \<noteq> sku (item_row (dress_item ''02''))"
proof -
  have d: "distinct (map sku (inventory_table seed_db))" by (simp add: seed_db_eq)
  have l: "ledger_ok seed_db" by (simp add: ledger_ok_def seed_db_eq)
  have p: "POST_inventory_plan utc_host seed_db dress_body = Inr (dress_item ''01'')"
    using POST_inventory_Reply(1)[OF ex_first] .
  have v: "map sku (returned_rows (snd (POST_inventory_all utc_host seed_db [dress_body, dress_body]))) =
     [''DRBLFLMD25101701'', ''DRBLFLMD25101702'']"
    unfolding ex_run_two by (simp add: dress_item_def dress_row_def)
  have s: "serve utc_host (seed_with [dress_row ''01'']) [DeleteInventory ''DRBLFLMD25101799''] =
           seed_with [dress_row ''01'']"
    by (simp add: serve_def DELETE_inventory_def table_delete_def findUnique_def seed_with_def dress_row_def)
  have q: "POST_inventory utc_host (serve utc_host (seed_with [dress_row ''01'']) [DeleteInventory ''DRBLFLMD25101799'']) dress_body =
     (seed_with [dress_row ''01'', dress_row ''02''], Reply 201 (dress_item ''02''))"
    unfolding s by (rule ex_second)
  have n: "DeleteInventory (sku (item_row (dress_item ''01''))) \<notin> set [DeleteInventory ''DRBLFLMD25101799'']"
    by (simp add: dress_item_def dress_row_def)
  from identifiers_are_unique_until_deleted[OF d, where h = utc_host and bs = "[dress_body, dress_body]"
      and qs = "[PostInventory dress_body, DeleteInventory ''DRBLFLMD25101701'']" and b = dress_body
      and item = "dress_item ''01''" and ?b1.0 = dress_body and ?d1.0 = "seed_with [dress_row ''01'']"
      and ?st1.0 = 201 and ?item1.0 = "dress_item ''01''"
      and between = "[DeleteInventory ''DRBLFLMD25101799'']" and ?b2.0 = dress_body
      and ?d2.0 = "seed_with [dress_row ''01'', dress_row ''02'']" and ?st2.0 = 201
      and ?item2.0 = "dress_item ''02''"]
    d l p v q n ex_first
  show ?thesis by blast
qed

text \<open>
  The first call returns DRBLFLMD25101701; that identifier is deleted; the next call with
  the same body returns DRBLFLMD25101701 again: two successful calls, one identifier.
\<close>

theorem deleted_identifier_is_returned_again:
  "map sku (returned_rows [snd (POST_inventory utc_host seed_db dress_body)]) = [''DRBLFLMD25101701''] \<and>
   map sku (returned_rows [snd (POST_inventory utc_host
      (serve utc_host (fst (POST_inventory utc_host seed_db dress_body)) [DeleteInventory ''DRBLFLMD25101701''])
      dress_body)]) = [''DRBLFLMD25101701'']"
proof -
  have s: "serve utc_host (seed_with [dress_row ''01'']) [DeleteInventory ''DRBLFLMD25101701''] = seed_db"
    by (simp add: serve_def ex_delete_only seed_with_Nil)
  show ?thesis
    unfolding ex_first fst_conv snd_conv s
    unfolding ex_first
    by (simp add: dress_item_def dress_row_def)
qed

section \<open>The cap at 99\<close>











section \<open>Monotonic sequencing and deletion\<close>


lemma findMany_startsWith_append:
  "findMany_startsWith k (xs @ ys) = findMany_startsWith k xs @ findMany_startsWith k ys"
  by (simp add: findMany_startsWith_def)

















section \<open>Unknown attribute codes\<close>








section \<open>A duplicate identifier at the insert\<close>

text \<open>
  C6 as amended (duplicate identifier at the insert). When the insert of the computed row
  is rejected because its identifier is already in the ledger, which happens when another
  request committed between this call's reads and its insert, the call does not retry: it
  answers at once with status 500 and the message of the failed creation, and leaves the
  database as the other request left it. Had the insert run on the well-formed ledger
  that the call read, the same call would have succeeded, provided the date and the
  amounts of the row are values the database stores.
\<close>

theorem rejected_insert_is_not_retried:
  assumes "POST_inventory_plan h snapshot b = Inr item"
    and "sku (item_row item) \<in> set (map sku (inventory_table d))"
  shows "POST_inventory_at h snapshot d b = (d, Failure 500 ''Failed to create inventory item'') \<and>
         (ledger_ok snapshot \<longrightarrow>
          POST_inventory h snapshot b =
            (if valid_values (item_row item)
             then (snapshot\<lparr>inventory_table := inventory_table snapshot @ [item_row item]\<rparr>,
                   Reply 201 item)
             else (snapshot, Failure 500 ''Failed to create inventory item'')))"
proof (intro conjI impI)
  show "POST_inventory_at h snapshot d b = (d, Failure 500 ''Failed to create inventory item'')"
    using assms by (simp add: POST_inventory_at_def inventory_create_def table_create_def)
next
  assume "ledger_ok snapshot"
  from plan_fresh[OF this assms(1)] assms(1)
  show "POST_inventory h snapshot b =
            (if valid_values (item_row item)
             then (snapshot\<lparr>inventory_table := inventory_table snapshot @ [item_row item]\<rparr>,
                   Reply 201 item)
             else (snapshot, Failure 500 ''Failed to create inventory item''))"
    by (simp add: POST_inventory_def POST_inventory_at_def inventory_create_def table_create_def)
qed

theorem rejected_insert_is_not_retried_witness:
  "POST_inventory_plan utc_host seed_db dress_body = Inr (dress_item ''01'') \<and>
   sku (item_row (dress_item ''01'')) \<in> set (map sku (inventory_table (seed_with [dress_row ''01'']))) \<and>
   POST_inventory_at utc_host seed_db (seed_with [dress_row ''01'']) dress_body =
     (seed_with [dress_row ''01''], Failure 500 ''Failed to create inventory item'') \<and>
   ledger_ok seed_db \<and> valid_values (item_row (dress_item ''01'')) \<and>
   POST_inventory utc_host seed_db dress_body =
     (seed_db\<lparr>inventory_table := inventory_table seed_db @ [item_row (dress_item ''01'')]\<rparr>,
      Reply 201 (dress_item ''01''))"
proof -
  have p: "POST_inventory_plan utc_host seed_db dress_body = Inr (dress_item ''01'')"
    using POST_inventory_Reply(1)[OF ex_first] .
  have v: "valid_values (item_row (dress_item ''01''))"
    using POST_inventory_Reply(5)[OF ex_first] .
  have l: "ledger_ok seed_db" by (simp add: ledger_ok_def inventory_seed_db)
  have m: "sku (item_row (dress_item ''01'')) \<in> set (map sku (inventory_table (seed_with [dress_row ''01''])))"
    by (simp add: dress_item_def seed_with_simps)
  note t = rejected_insert_is_not_retried[OF p m]
  from t have a: "POST_inventory_at utc_host seed_db (seed_with [dress_row ''01'']) dress_body =
     (seed_with [dress_row ''01''], Failure 500 ''Failed to create inventory item'')"
    by (rule conjunct1)
  from t l have "POST_inventory utc_host seed_db dress_body =
     (if valid_values (item_row (dress_item ''01''))
      then (seed_db\<lparr>inventory_table := inventory_table seed_db @ [item_row (dress_item ''01'')]\<rparr>,
            Reply 201 (dress_item ''01''))
      else (seed_db, Failure 500 ''Failed to create inventory item''))"
    by blast
  with v have b: "POST_inventory utc_host seed_db dress_body =
     (seed_db\<lparr>inventory_table := inventory_table seed_db @ [item_row (dress_item ''01'')]\<rparr>,
      Reply 201 (dress_item ''01''))"
    by (simp only: if_True)
  from p m a l v b show ?thesis by blast
qed

text \<open>
  The claim as stated fails: two identical requests read the seeded database, the first
  inserts DRBLFLMD25101701, the insert of the second is rejected as a duplicate and the
  second is answered with status 500, although a new computation on the current database
  would have succeeded with sequence number 02.
\<close>

theorem duplicate_insert_surfaces_without_retry:
  "POST_inventory_at utc_host seed_db seed_db dress_body =
     (seed_with [dress_row ''01''], Reply 201 (dress_item ''01'')) \<and>
   POST_inventory_at utc_host seed_db (seed_with [dress_row ''01'']) dress_body =
     (seed_with [dress_row ''01''], Failure 500 ''Failed to create inventory item'') \<and>
   POST_inventory_at utc_host (seed_with [dress_row ''01'']) (seed_with [dress_row ''01'']) dress_body =
     (seed_with [dress_row ''01'', dress_row ''02''], Reply 201 (dress_item ''02''))"
proof -
  have p: "POST_inventory_plan utc_host seed_db dress_body = Inr (dress_item ''01'')"
    using POST_inventory_Reply(1)[OF ex_first] .
  have "POST_inventory_at utc_host seed_db (seed_with [dress_row ''01'']) dress_body =
     (seed_with [dress_row ''01''], Failure 500 ''Failed to create inventory item'')"
    by (simp add: POST_inventory_at_def p inventory_create_def table_create_def dress_item_def seed_with_simps)
  with ex_first ex_second show ?thesis by (simp add: POST_inventory_def)
qed

section \<open>Amounts\<close>

lemma POST_inventory_missing:
  "missing_required b \<Longrightarrow> POST_inventory h d b = (d, Failure 400 ''Missing required fields'')"
  by (simp add: POST_inventory_def POST_inventory_at_def POST_inventory_plan_def)

lemma isFinite_not_NaN: "isFinite w \<Longrightarrow> \<not> is_NaN w"
  by (simp add: isFinite_def is_NaN_def)

text \<open>With amounts that pass the check of the required fields, the handler reaches the insert.\<close>

lemma POST_inventory_plan_reached:
  assumes "body_purchaseCost b = Some c" "\<not> is_zero c" "\<not> is_NaN c"
    and "body_sellingPrice b = Some p" "\<not> is_zero p" "\<not> is_NaN p"
    and "body_typeCode b \<noteq> []" "body_colorCode b \<noteq> []" "body_patternCode b \<noteq> []"
      "body_sizeCode b \<noteq> []" "body_purchaseDate b \<noteq> []"
    and "new_Date h (body_purchaseDate b) = Some date"
    and "findUnique code (type_table d) (body_typeCode b) \<noteq> None"
      "findUnique code (color_table d) (body_colorCode b) \<noteq> None"
      "findUnique code (pattern_table d) (body_patternCode b) \<noteq> None"
      "findUnique code (size_table d) (body_sizeCode b) \<noteq> None"
    and "compute_sequenceNum (findMany_startsWith (compute_baseKey b date) (inventory_table d)) \<noteq> None"
  obtains item where "POST_inventory_plan h d b = Inr item"
    "purchaseCost (item_row item) = c" "sellingPrice (item_row item) = p"
    "purchaseDate (item_row item) = Some date"
proof -
  from assms obtain t cl pt z s where look:
    "findUnique code (type_table d) (body_typeCode b) = Some t"
    "findUnique code (color_table d) (body_colorCode b) = Some cl"
    "findUnique code (pattern_table d) (body_patternCode b) = Some pt"
    "findUnique code (size_table d) (body_sizeCode b) = Some z"
    and s: "compute_sequenceNum (findMany_startsWith (compute_baseKey b date) (inventory_table d)) = Some s"
    by auto
  from assms(1-11) have m: "\<not> missing_required b"
    by (simp add: missing_required_def falsy_amount_def)
  have k: "request_key h b = compute_baseKey b date"
    using assms(12) by (rule request_key_valid(1))
  obtain item where plan: "POST_inventory_plan h d b = Inr item"
    using m s look k by (simp add: POST_inventory_plan_def Let_def)
  have "purchaseCost (item_row item) = parseFloat (body_purchaseCost b) \<and>
    sellingPrice (item_row item) = parseFloat (body_sellingPrice b) \<and>
    purchaseDate (item_row item) = new_Date h (body_purchaseDate b)"
    by (rule POST_inventory_plan_Inr[OF plan]) simp
  with assms(1,4,12) have "purchaseCost (item_row item) = c" "sellingPrice (item_row item) = p"
    "purchaseDate (item_row item) = Some date"
    by (simp_all add: parseFloat_def)
  with plan show ?thesis by (rule that)
qed

lemma POST_inventory_refused:
  assumes "POST_inventory_plan h d b = Inr item" and "\<not> valid_values (item_row item)"
  shows "POST_inventory h d b = (d, Failure 500 ''Failed to create inventory item'')"
  using assms by (simp add: POST_inventory_def POST_inventory_at_def inventory_create_def)

lemma POST_inventory_accepted:
  assumes "ledger_ok d" and "POST_inventory_plan h d b = Inr item" and "valid_values (item_row item)"
  shows "POST_inventory h d b =
           (d\<lparr>inventory_table := inventory_table d @ [item_row item]\<rparr>, Reply 201 item)"
  using assms plan_fresh[OF assms(1,2)]
  by (simp add: POST_inventory_def POST_inventory_at_def inventory_create_def table_create_def)

text \<open>
  C8 as amended (amounts). The amounts of a request are doubles. A call whose cost and
  price are present, finite and not zero passes the check of the amounts whatever their
  sign and their order: when the other fields are present, the date is valid, the codes
  resolve and the sequence is not exhausted, on a ledger the allocator wrote, the call
  succeeds and the row it inserts carries exactly the cost and the price of the request.
  A call whose cost or price is absent fails with status 400 and the message of the
  missing fields, and the database is unchanged. A call with an infinite cost or price,
  which is what a number too large for a double is read as, that otherwise would succeed
  fails with status 500 and the message of the failed creation, and the database is
  unchanged; no call with a cost or price that is not finite is answered with a record.
\<close>

theorem amounts_are_only_required:
  "(body_purchaseCost b = Some c \<and> \<not> is_zero c \<and> isFinite c \<and>
    body_sellingPrice b = Some p \<and> \<not> is_zero p \<and> isFinite p \<and>
    body_typeCode b \<noteq> [] \<and> body_colorCode b \<noteq> [] \<and> body_patternCode b \<noteq> [] \<and>
    body_sizeCode b \<noteq> [] \<and> body_purchaseDate b \<noteq> [] \<and>
    new_Date h (body_purchaseDate b) = Some date \<and>
    findUnique code (type_table d) (body_typeCode b) \<noteq> None \<and>
    findUnique code (color_table d) (body_colorCode b) \<noteq> None \<and>
    findUnique code (pattern_table d) (body_patternCode b) \<noteq> None \<and>
    findUnique code (size_table d) (body_sizeCode b) \<noteq> None \<and>
    compute_sequenceNum (findMany_startsWith (compute_baseKey b date) (inventory_table d)) \<noteq> None \<and>
    ledger_ok d \<longrightarrow>
    (\<exists>d' item. POST_inventory h d b = (d', Reply 201 item) \<and>
                purchaseCost (item_row item) = c \<and> sellingPrice (item_row item) = p \<and>
                inventory_table d' = inventory_table d @ [item_row item])) \<and>
   (body_purchaseCost b = None \<or> body_sellingPrice b = None \<longrightarrow>
    POST_inventory h d b = (d, Failure 400 ''Missing required fields'')) \<and>
   (body_purchaseCost b = Some c \<and> \<not> is_zero c \<and> \<not> is_NaN c \<and>
    body_sellingPrice b = Some p \<and> \<not> is_zero p \<and> \<not> is_NaN p \<and>
    \<not> (isFinite c \<and> isFinite p) \<and>
    body_typeCode b \<noteq> [] \<and> body_colorCode b \<noteq> [] \<and> body_patternCode b \<noteq> [] \<and>
    body_sizeCode b \<noteq> [] \<and> body_purchaseDate b \<noteq> [] \<and>
    new_Date h (body_purchaseDate b) = Some date \<and>
    findUnique code (type_table d) (body_typeCode b) \<noteq> None \<and>
    findUnique code (color_table d) (body_colorCode b) \<noteq> None \<and>
    findUnique code (pattern_table d) (body_patternCode b) \<noteq> None \<and>
    findUnique code (size_table d) (body_sizeCode b) \<noteq> None \<and>
    compute_sequenceNum (findMany_startsWith (compute_baseKey b date) (inventory_table d)) \<noteq> None \<longrightarrow>
    POST_inventory h d b = (d, Failure 500 ''Failed to create inventory item'')) \<and>
   (body_purchaseCost b = Some c \<and> body_sellingPrice b = Some p \<and> \<not> (isFinite c \<and> isFinite p) \<longrightarrow>
    fst (POST_inventory h d b) = d \<and> \<not> is_Reply (snd (POST_inventory h d b)))"
proof (intro conjI impI)
  assume a: "body_purchaseCost b = Some c \<and> \<not> is_zero c \<and> isFinite c \<and>
    body_sellingPrice b = Some p \<and> \<not> is_zero p \<and> isFinite p \<and>
    body_typeCode b \<noteq> [] \<and> body_colorCode b \<noteq> [] \<and> body_patternCode b \<noteq> [] \<and>
    body_sizeCode b \<noteq> [] \<and> body_purchaseDate b \<noteq> [] \<and>
    new_Date h (body_purchaseDate b) = Some date \<and>
    findUnique code (type_table d) (body_typeCode b) \<noteq> None \<and>
    findUnique code (color_table d) (body_colorCode b) \<noteq> None \<and>
    findUnique code (pattern_table d) (body_patternCode b) \<noteq> None \<and>
    findUnique code (size_table d) (body_sizeCode b) \<noteq> None \<and>
    compute_sequenceNum (findMany_startsWith (compute_baseKey b date) (inventory_table d)) \<noteq> None \<and>
    ledger_ok d"
  then have n: "\<not> is_NaN c" "\<not> is_NaN p" by (simp_all add: isFinite_not_NaN)
  from a n obtain item where item: "POST_inventory_plan h d b = Inr item"
    "purchaseCost (item_row item) = c" "sellingPrice (item_row item) = p"
    "purchaseDate (item_row item) = Some date"
    by (elim conjE POST_inventory_plan_reached[where b = b and h = h and d = d and date = date and c = c and p = p])
  with a have v: "valid_values (item_row item)" by (simp add: valid_values_def)
  from a have ok: "ledger_ok d" by simp
  from POST_inventory_accepted[OF ok item(1) v] item(2,3)
  show "\<exists>d' item. POST_inventory h d b = (d', Reply 201 item) \<and>
                purchaseCost (item_row item) = c \<and> sellingPrice (item_row item) = p \<and>
                inventory_table d' = inventory_table d @ [item_row item]"
    by simp
next
  assume "body_purchaseCost b = None \<or> body_sellingPrice b = None"
  then have "missing_required b" by (auto simp: missing_required_def falsy_amount_def)
  then show "POST_inventory h d b = (d, Failure 400 ''Missing required fields'')"
    by (rule POST_inventory_missing)
next
  assume a: "body_purchaseCost b = Some c \<and> \<not> is_zero c \<and> \<not> is_NaN c \<and>
    body_sellingPrice b = Some p \<and> \<not> is_zero p \<and> \<not> is_NaN p \<and>
    \<not> (isFinite c \<and> isFinite p) \<and>
    body_typeCode b \<noteq> [] \<and> body_colorCode b \<noteq> [] \<and> body_patternCode b \<noteq> [] \<and>
    body_sizeCode b \<noteq> [] \<and> body_purchaseDate b \<noteq> [] \<and>
    new_Date h (body_purchaseDate b) = Some date \<and>
    findUnique code (type_table d) (body_typeCode b) \<noteq> None \<and>
    findUnique code (color_table d) (body_colorCode b) \<noteq> None \<and>
    findUnique code (pattern_table d) (body_patternCode b) \<noteq> None \<and>
    findUnique code (size_table d) (body_sizeCode b) \<noteq> None \<and>
    compute_sequenceNum (findMany_startsWith (compute_baseKey b date) (inventory_table d)) \<noteq> None"
  show "POST_inventory h d b = (d, Failure 500 ''Failed to create inventory item'')"
  proof -
    from a obtain item where item: "POST_inventory_plan h d b = Inr item"
      "purchaseCost (item_row item) = c" "sellingPrice (item_row item) = p"
      by (elim conjE POST_inventory_plan_reached[where b = b and h = h and d = d and date = date and c = c and p = p])
    with a have "\<not> valid_values (item_row item)" by (simp add: valid_values_def)
    with item(1) show ?thesis by (rule POST_inventory_refused)
  qed
next
  assume a: "body_purchaseCost b = Some c \<and> body_sellingPrice b = Some p \<and> \<not> (isFinite c \<and> isFinite p)"
  obtain d' r where one: "POST_inventory h d b = (d', r)" by (cases "POST_inventory h d b")
  then have at: "POST_inventory_at h d d b = (d', r)" by (simp add: POST_inventory_def)
  have "d' = d \<and> \<not> is_Reply r"
    using at
  proof (cases rule: POST_inventory_at_cases)
    case early
    with POST_inventory_plan_Inl[OF early(1)] show ?thesis by auto
  next
    case (refused item)
    then show ?thesis by simp
  next
    case (rejected item)
    then show ?thesis by simp
  next
    case (created item)
    have "purchaseCost (item_row item) = parseFloat (body_purchaseCost b) \<and>
      sellingPrice (item_row item) = parseFloat (body_sellingPrice b)"
      by (rule POST_inventory_plan_Inr[OF created(1)]) simp
    with a created(2) show ?thesis by (simp add: valid_values_def parseFloat_def)
  qed
  with one show "fst (POST_inventory h d b) = d" and "\<not> is_Reply (snd (POST_inventory h d b))"
    by simp_all
qed

lemma amounts_ex:
  "\<not> is_zero (0x403E000000000000 :: double)" "isFinite (0x403E000000000000 :: double)"
  "\<not> is_zero (0x4024000000000000 :: double)" "isFinite (0x4024000000000000 :: double)"
  "\<not> is_zero (0xC014000000000000 :: double)" "isFinite (0xC014000000000000 :: double)"
  "\<not> is_zero (0x7FF0000000000000 :: double)" "\<not> isFinite (0x7FF0000000000000 :: double)"
  "\<not> is_NaN (0x7FF0000000000000 :: double)"
  "\<not> is_zero (0x4038800000000000 :: double)" "isFinite (0x4038800000000000 :: double)"
  "\<not> is_NaN (0x4038800000000000 :: double)"
  by (simp_all add: is_zero_def isFinite_def is_NaN_def exponent_bits_def fraction_bits_def)

lemma amount_values:
  "double_value 0x403E000000000000 = 30" "double_value 0x4024000000000000 = 10"
  "double_value 0xC014000000000000 = - 5"
  by (simp_all add: double_value_def exponent_bits_def fraction_bits_def sign_bit_def Let_def)

lemma dress_body_fields:
  "body_typeCode dress_body \<noteq> []" "body_colorCode dress_body \<noteq> []"
  "body_patternCode dress_body \<noteq> []" "body_sizeCode dress_body \<noteq> []"
  "body_purchaseDate dress_body \<noteq> []" "body_sellingPrice dress_body = Some 0x4038800000000000"
  "findUnique code (type_table seed_db) (body_typeCode dress_body) \<noteq> None"
  "findUnique code (color_table seed_db) (body_colorCode dress_body) \<noteq> None"
  "findUnique code (pattern_table seed_db) (body_patternCode dress_body) \<noteq> None"
  "findUnique code (size_table seed_db) (body_sizeCode dress_body) \<noteq> None"
  "compute_sequenceNum (findMany_startsWith (compute_baseKey dress_body dress_date)
     (inventory_table seed_db)) \<noteq> None"
  by (simp_all add: dress_body_simps seed_lookups inventory_seed_db findMany_startsWith_def
        compute_sequenceNum_def, simp_all add: dress_body_def)

lemma compute_baseKey_amounts:
  "compute_baseKey (b\<lparr>body_purchaseCost := x\<rparr>) date = compute_baseKey b date"
  "compute_baseKey (b\<lparr>body_sellingPrice := y\<rparr>) date = compute_baseKey b date"
  by (simp_all add: compute_baseKey_def)

theorem amounts_are_only_required_witness:
  "double_value 0x403E000000000000 = 30 \<and> double_value 0x4024000000000000 = 10 \<and>
   ledger_ok seed_db \<and>
   (\<exists>d' item. POST_inventory utc_host seed_db
        (dress_body\<lparr>body_purchaseCost := Some 0x403E000000000000,
                     body_sellingPrice := Some 0x4024000000000000\<rparr>) = (d', Reply 201 item) \<and>
      purchaseCost (item_row item) = 0x403E000000000000 \<and>
      sellingPrice (item_row item) = 0x4024000000000000 \<and>
      inventory_table d' = inventory_table seed_db @ [item_row item]) \<and>
   body_purchaseCost (dress_body\<lparr>body_purchaseCost := None\<rparr>) = None \<and>
   POST_inventory utc_host seed_db (dress_body\<lparr>body_purchaseCost := None\<rparr>) =
     (seed_db, Failure 400 ''Missing required fields'') \<and>
   \<not> isFinite (0x7FF0000000000000 :: double) \<and>
   POST_inventory utc_host seed_db (dress_body\<lparr>body_purchaseCost := Some 0x7FF0000000000000\<rparr>) =
     (seed_db, Failure 500 ''Failed to create inventory item'') \<and>
   fst (POST_inventory utc_host seed_db (dress_body\<lparr>body_purchaseCost := Some 0x7FF0000000000000\<rparr>)) = seed_db \<and>
   \<not> is_Reply (snd (POST_inventory utc_host seed_db (dress_body\<lparr>body_purchaseCost := Some 0x7FF0000000000000\<rparr>)))"
proof -
  let ?b = "dress_body\<lparr>body_purchaseCost := Some 0x403E000000000000,
                        body_sellingPrice := Some 0x4024000000000000\<rparr>"
  let ?n = "dress_body\<lparr>body_purchaseCost := None\<rparr>"
  let ?i = "dress_body\<lparr>body_purchaseCost := Some 0x7FF0000000000000\<rparr>"
  have ok: "ledger_ok seed_db" by (simp add: ledger_ok_def inventory_seed_db)
  have f: "body_purchaseCost ?b = Some 0x403E000000000000" "body_sellingPrice ?b = Some 0x4024000000000000"
    "body_typeCode ?b \<noteq> []" "body_colorCode ?b \<noteq> []" "body_patternCode ?b \<noteq> []"
    "body_sizeCode ?b \<noteq> []" "body_purchaseDate ?b \<noteq> []"
    "new_Date utc_host (body_purchaseDate ?b) = Some dress_date"
    "findUnique code (type_table seed_db) (body_typeCode ?b) \<noteq> None"
    "findUnique code (color_table seed_db) (body_colorCode ?b) \<noteq> None"
    "findUnique code (pattern_table seed_db) (body_patternCode ?b) \<noteq> None"
    "findUnique code (size_table seed_db) (body_sizeCode ?b) \<noteq> None"
    "compute_sequenceNum (findMany_startsWith (compute_baseKey ?b dress_date)
       (inventory_table seed_db)) \<noteq> None"
    using dress_body_fields dress_body_simps(2) by (simp_all add: compute_baseKey_amounts)
  have g: "body_purchaseCost ?i = Some 0x7FF0000000000000" "body_sellingPrice ?i = Some 0x4038800000000000"
    "body_typeCode ?i \<noteq> []" "body_colorCode ?i \<noteq> []" "body_patternCode ?i \<noteq> []"
    "body_sizeCode ?i \<noteq> []" "body_purchaseDate ?i \<noteq> []"
    "new_Date utc_host (body_purchaseDate ?i) = Some dress_date"
    "findUnique code (type_table seed_db) (body_typeCode ?i) \<noteq> None"
    "findUnique code (color_table seed_db) (body_colorCode ?i) \<noteq> None"
    "findUnique code (pattern_table seed_db) (body_patternCode ?i) \<noteq> None"
    "findUnique code (size_table seed_db) (body_sizeCode ?i) \<noteq> None"
    "compute_sequenceNum (findMany_startsWith (compute_baseKey ?i dress_date)
       (inventory_table seed_db)) \<noteq> None"
    using dress_body_fields dress_body_simps(2) by (simp_all add: compute_baseKey_amounts)
  have n: "body_purchaseCost ?n = None" by simp
  have nf: "\<not> (isFinite (0x7FF0000000000000 :: double) \<and> isFinite (0x4038800000000000 :: double))"
    using amounts_ex(8) by blast
  note t1 = amounts_are_only_required[where b = ?b and c = "0x403E000000000000" and p = "0x4024000000000000"
      and h = utc_host and date = dress_date and d = seed_db, THEN conjunct1]
  note t2 = amounts_are_only_required[where b = ?n and h = utc_host and d = seed_db,
      THEN conjunct2, THEN conjunct1]
  note t3 = amounts_are_only_required[where b = ?i and c = "0x7FF0000000000000" and p = "0x4038800000000000"
      and h = utc_host and date = dress_date and d = seed_db, THEN conjunct2, THEN conjunct2, THEN conjunct1]
  note t4 = amounts_are_only_required[where b = ?i and c = "0x7FF0000000000000" and p = "0x4038800000000000"
      and h = utc_host and d = seed_db, THEN conjunct2, THEN conjunct2, THEN conjunct2]
  have c1: "\<exists>d' item. POST_inventory utc_host seed_db ?b = (d', Reply 201 item) \<and>
      purchaseCost (item_row item) = 0x403E000000000000 \<and>
      sellingPrice (item_row item) = 0x4024000000000000 \<and>
      inventory_table d' = inventory_table seed_db @ [item_row item]"
    using t1 f amounts_ex(1-4) ok by blast
  have c2: "POST_inventory utc_host seed_db ?n = (seed_db, Failure 400 ''Missing required fields'')"
    using t2 n by blast
  have c3: "POST_inventory utc_host seed_db ?i = (seed_db, Failure 500 ''Failed to create inventory item'')"
    using t3 g amounts_ex(7,9,10,12) nf by blast
  have c4: "fst (POST_inventory utc_host seed_db ?i) = seed_db \<and>
            \<not> is_Reply (snd (POST_inventory utc_host seed_db ?i))"
    using t4 g(1,2) nf by blast
  from amount_values(1,2) ok c1 n c2 amounts_ex(8) c3 c4 show ?thesis by blast
qed

text \<open>
  The claim as stated fails: a call with the negative cost -5 is accepted with status 201
  and the row is stored with that cost.
\<close>

theorem negative_cost_is_persisted:
  "double_value 0xC014000000000000 = - 5 \<and>
   POST_inventory utc_host seed_db (dress_body\<lparr>body_purchaseCost := Some 0xC014000000000000\<rparr>) =
     (seed_with [(dress_row ''01'')\<lparr>purchaseCost := 0xC014000000000000\<rparr>],
      Reply 201 ((dress_item ''01'')\<lparr>item_row := (dress_row ''01'')\<lparr>purchaseCost := 0xC014000000000000\<rparr>\<rparr>)) \<and>
   double_value (purchaseCost ((dress_row ''01'')\<lparr>purchaseCost := 0xC014000000000000\<rparr>)) < 0"
proof -
  let ?b = "dress_body\<lparr>body_purchaseCost := Some 0xC014000000000000\<rparr>"
  have m: "\<not> missing_required ?b"
    using dress_body_simps(1) amounts_ex(5,6)
    by (simp add: missing_required_def falsy_amount_def isFinite_not_NaN)
  have dt: "new_Date utc_host (body_purchaseDate ?b) = Some dress_date"
    using dress_body_simps(2) by simp
  have k: "compute_baseKey ?b dress_date = ''DRBLFLMD251017''"
    using baseKey_ex by (simp add: compute_baseKey_amounts)
  have s: "compute_sequenceNum (findMany_startsWith (compute_baseKey ?b dress_date)
             (inventory_table seed_db)) = Some ''01''"
    by (simp add: inventory_seed_db findMany_startsWith_def compute_sequenceNum_def)
  have f: "compute_baseKey ?b dress_date @ ''01'' \<notin> set (map sku (inventory_table seed_db))"
    by (simp add: inventory_seed_db)
  have l: "findUnique code (type_table seed_db) (body_typeCode ?b) = Some (item_type (dress_item ''01''))"
    "findUnique code (color_table seed_db) (body_colorCode ?b) = Some (item_color (dress_item ''01''))"
    "findUnique code (pattern_table seed_db) (body_patternCode ?b) = Some (item_pattern (dress_item ''01''))"
    "findUnique code (size_table seed_db) (body_sizeCode ?b) = Some (item_size (dress_item ''01''))"
    by (simp_all add: dress_body_simps seed_lookups dress_item_def)
  have fin: "isFinite (parseFloat (body_purchaseCost ?b))" "isFinite (parseFloat (body_sellingPrice ?b))"
    using dress_body_simps(10) amounts_ex(6) by (simp_all add: parseFloat_def)
  have "POST_inventory utc_host seed_db ?b =
     (seed_with [(dress_row ''01'')\<lparr>purchaseCost := 0xC014000000000000\<rparr>],
      Reply 201 ((dress_item ''01'')\<lparr>item_row := (dress_row ''01'')\<lparr>purchaseCost := 0xC014000000000000\<rparr>\<rparr>))"
    by (rule POST_inventory_created[OF m dt s l f fin refl, THEN trans])
       (simp add: k dateCode_ex dress_item_def dress_row_def compute_displayName_def
          parseFloat_def seed_with_def seed_db_eq dress_body_simps, simp add: dress_body_def)
  with amount_values(3) show ?thesis by simp
qed

section \<open>Deleting a catalog code\<close>

lemma codes_of_delete_code:
  assumes "delete_code d cat c = Some d'"
  shows "c \<in> set (codes_of d cat)"
    and "codes_of d' cat = filter (\<lambda>k. k \<noteq> c) (codes_of d cat)"
    and "cat' \<noteq> cat \<Longrightarrow> codes_of d' cat' = codes_of d cat'"
    and "inventory_table d' = inventory_table d"
proof -
  show "c \<in> set (codes_of d cat)"
    using assms
    by (cases cat) (auto simp: delete_code_def codes_of_def table_delete_def split: if_splits)
  show "codes_of d' cat = filter (\<lambda>k. k \<noteq> c) (codes_of d cat)"
    using assms
    by (cases cat)
       (auto simp: delete_code_def codes_of_def table_delete_def filter_map comp_def split: if_splits)
  show "codes_of d' cat' = codes_of d cat'" if "cat' \<noteq> cat"
    using assms that
    by (cases cat; cases cat')
       (auto simp: delete_code_def codes_of_def table_delete_def split: if_splits)
  show "inventory_table d' = inventory_table d"
    using assms by (rule delete_code_inventory)
qed

lemma inventory_count_pos:
  "0 < inventory_count d cat c \<longleftrightarrow> (\<exists>r \<in> set (inventory_table d). fieldMap cat r = c)"
  by (auto simp: inventory_count_def filter_empty_conv)

text \<open>
  C9 (referential immutability of catalog entries). A deletion request for a code that an
  inventory record references in the field of its category is rejected with status 400 and
  a message giving the number of such records, and the database, hence the catalog entry,
  is unchanged. A deletion request that succeeds was for a code of that category that no
  inventory record references: this code is removed from its category, and the other
  categories and the ledger are unchanged.
\<close>

theorem referenced_code_is_not_deleted:
  "(parse_category category = Some cat \<and> (\<exists>r \<in> set (inventory_table d). fieldMap cat r = c) \<longrightarrow>
    0 < inventory_count d cat c \<and>
    DELETE_code_library d category c =
      (d, Failure 400 (''Cannot delete: '' @ String (Num (int (inventory_count d cat c))) @
                       '' inventory item(s) use this code''))) \<and>
   (DELETE_code_library d category c = (d', Reply st x) \<longrightarrow>
    (\<exists>cat. parse_category category = Some cat \<and>
           (\<forall>r \<in> set (inventory_table d). fieldMap cat r \<noteq> c) \<and>
           c \<in> set (codes_of d cat) \<and>
           codes_of d' cat = filter (\<lambda>k. k \<noteq> c) (codes_of d cat) \<and>
           (\<forall>cat'. cat' \<noteq> cat \<longrightarrow> codes_of d' cat' = codes_of d cat') \<and>
           inventory_table d' = inventory_table d))"
proof (intro conjI impI)
  assume h: "parse_category category = Some cat \<and> (\<exists>r \<in> set (inventory_table d). fieldMap cat r = c)"
  then show pos: "0 < inventory_count d cat c" by (simp add: inventory_count_pos)
  with h show "DELETE_code_library d category c =
      (d, Failure 400 (''Cannot delete: '' @ String (Num (int (inventory_count d cat c))) @
                       '' inventory item(s) use this code''))"
    by (simp add: DELETE_code_library_def Let_def del: String.simps)
next
  assume h: "DELETE_code_library d category c = (d', Reply st x)"
  then obtain cat where cat: "parse_category category = Some cat"
    by (auto simp: DELETE_code_library_def split: option.splits)
  with h have zero: "\<not> 0 < inventory_count d cat c" and del: "delete_code d cat c = Some d'"
    by (auto simp: DELETE_code_library_def Let_def split: if_splits option.splits)
  from zero have "\<forall>r \<in> set (inventory_table d). fieldMap cat r \<noteq> c"
    by (simp add: inventory_count_pos)
  with cat codes_of_delete_code[OF del]
  show "\<exists>cat. parse_category category = Some cat \<and>
           (\<forall>r \<in> set (inventory_table d). fieldMap cat r \<noteq> c) \<and>
           c \<in> set (codes_of d cat) \<and>
           codes_of d' cat = filter (\<lambda>k. k \<noteq> c) (codes_of d cat) \<and>
           (\<forall>cat'. cat' \<noteq> cat \<longrightarrow> codes_of d' cat' = codes_of d cat') \<and>
           inventory_table d' = inventory_table d"
    by blast
qed

lemma ex_delete_unused_color:
  "DELETE_code_library seed_db ''colors'' ''MT'' =
     (seed_db\<lparr>color_table := filter (\<lambda>r. code r \<noteq> ''MT'') (color_table seed_db)\<rparr>, Reply 200 True)"
  by (simp add: DELETE_code_library_def parse_category_def inventory_count_def delete_code_def
        table_delete_def Let_def seed_db_eq seed_colors_def)

theorem referenced_code_is_not_deleted_witness:
  "parse_category ''colors'' = Some Colors \<and>
   (\<exists>r \<in> set (inventory_table (seed_with [dress_row ''01''])). fieldMap Colors r = ''BL'') \<and>
   DELETE_code_library (seed_with [dress_row ''01'']) ''colors'' ''BL'' =
     (seed_with [dress_row ''01''],
      Failure 400 (''Cannot delete: '' @
        String (Num (int (inventory_count (seed_with [dress_row ''01'']) Colors ''BL''))) @
        '' inventory item(s) use this code'')) \<and>
   DELETE_code_library seed_db ''colors'' ''MT'' =
     (seed_db\<lparr>color_table := filter (\<lambda>r. code r \<noteq> ''MT'') (color_table seed_db)\<rparr>, Reply 200 True) \<and>
   (\<exists>cat. parse_category ''colors'' = Some cat \<and>
          (\<forall>r \<in> set (inventory_table seed_db). fieldMap cat r \<noteq> ''MT'') \<and>
          ''MT'' \<in> set (codes_of seed_db cat) \<and>
          codes_of (seed_db\<lparr>color_table := filter (\<lambda>r. code r \<noteq> ''MT'') (color_table seed_db)\<rparr>) cat =
            filter (\<lambda>k. k \<noteq> ''MT'') (codes_of seed_db cat))"
proof -
  have pc: "parse_category ''colors'' = Some Colors" by (simp add: parse_category_def)
  have use: "\<exists>r \<in> set (inventory_table (seed_with [dress_row ''01''])). fieldMap Colors r = ''BL''"
    by (simp add: seed_with_simps fieldMap_def dress_row_def)
  note t1 = referenced_code_is_not_deleted[where category = "''colors''" and cat = Colors
      and d = "seed_with [dress_row ''01'']" and c = "''BL''", THEN conjunct1]
  note t2 = referenced_code_is_not_deleted[where category = "''colors''" and d = seed_db
      and c = "''MT''" and st = 200 and x = True
      and d' = "seed_db\<lparr>color_table := filter (\<lambda>r. code r \<noteq> ''MT'') (color_table seed_db)\<rparr>",
      THEN conjunct2]
  have c1: "DELETE_code_library (seed_with [dress_row ''01'']) ''colors'' ''BL'' =
     (seed_with [dress_row ''01''],
      Failure 400 (''Cannot delete: '' @
        String (Num (int (inventory_count (seed_with [dress_row ''01'']) Colors ''BL''))) @
        '' inventory item(s) use this code''))"
    using t1 pc use by blast
  have c2: "\<exists>cat. parse_category ''colors'' = Some cat \<and>
          (\<forall>r \<in> set (inventory_table seed_db). fieldMap cat r \<noteq> ''MT'') \<and>
          ''MT'' \<in> set (codes_of seed_db cat) \<and>
          codes_of (seed_db\<lparr>color_table := filter (\<lambda>r. code r \<noteq> ''MT'') (color_table seed_db)\<rparr>) cat =
            filter (\<lambda>k. k \<noteq> ''MT'') (codes_of seed_db cat)"
    using t2 ex_delete_unused_color by blast
  from pc use c1 ex_delete_unused_color c2 show ?thesis by blast
qed

section \<open>The shape of the catalog\<close>

lemma findUnique_None_iff: "findUnique key rows k = None \<longleftrightarrow> k \<notin> set (map key rows)"
  by (auto simp: findUnique_def find_None_iff)

lemma findUnique_Some_key: "findUnique key rows k = Some r \<Longrightarrow> key r = k \<and> r \<in> set rows"
  by (auto simp: findUnique_def find_Some_iff)

lemma code_exists_iff: "code_exists d cat c \<longleftrightarrow> c \<in> set (codes_of d cat)"
  by (cases cat) (simp_all add: code_exists_def codes_of_def findUnique_None_iff)

lemma catalog_ok_codes_of: "catalog_ok d \<longleftrightarrow> (\<forall>cat. codes_ok (codes_of d cat))"
proof
  assume "catalog_ok d"
  then show "\<forall>cat. codes_ok (codes_of d cat)"
    by (auto simp: catalog_ok_def codes_of_def split: category.splits)
next
  assume a: "\<forall>cat. codes_ok (codes_of d cat)"
  from a[rule_format, of Types] a[rule_format, of Colors] a[rule_format, of Patterns]
    a[rule_format, of Sizes]
  show "catalog_ok d" by (simp add: catalog_ok_def codes_of_def)
qed

lemma codes_ok_snoc: "codes_ok cs \<Longrightarrow> c \<notin> set cs \<Longrightarrow> length c = 2 \<Longrightarrow> codes_ok (cs @ [c])"
  by (simp add: codes_ok_def)

lemma codes_ok_filter: "codes_ok cs \<Longrightarrow> codes_ok (filter P cs)"
  by (simp add: codes_ok_def list_all_iff)

lemma create_code_codes:
  "codes_of (fst (create_code d cat b)) cat' =
     (if cat' = cat \<and> body_code b \<notin> set (codes_of d cat) then codes_of d cat @ [body_code b]
      else codes_of d cat')"
proof (cases cat)
  case Types
  then show ?thesis
    by (cases cat') (simp_all add: create_code_def failed_to_add_def Let_def codes_of_def table_create_def)
next
  case Colors
  then show ?thesis
    by (cases cat') (simp_all add: create_code_def failed_to_add_def Let_def codes_of_def table_create_def)
next
  case Patterns
  then show ?thesis
    by (cases cat') (simp_all add: create_code_def failed_to_add_def Let_def codes_of_def table_create_def)
next
  case Sizes
  then show ?thesis
    by (cases cat') (simp_all add: create_code_def failed_to_add_def Let_def codes_of_def table_create_def)
qed

lemma POST_code_library_codes:
  "codes_of (fst (POST_code_library d category b)) cat' =
     (if body_code b \<noteq> [] \<and> body_name b \<noteq> [] \<and> length (body_code b) = 2 \<and>
         parse_category category = Some cat' \<and> body_code b \<notin> set (codes_of d cat')
      then codes_of d cat' @ [body_code b] else codes_of d cat')"
  by (auto simp: POST_code_library_def create_code_codes code_exists_iff split: option.splits)

lemma POST_code_library_catalog_ok:
  assumes "catalog_ok d"
  shows "catalog_ok (fst (POST_code_library d category b))"
  using assms
  by (simp add: catalog_ok_codes_of POST_code_library_codes codes_ok_snoc)

lemma DELETE_code_library_codes:
  "\<exists>P. codes_of (fst (DELETE_code_library d category c)) cat' = filter P (codes_of d cat')"
proof (cases "DELETE_code_library d category c")
  case (Pair d' r)
  show ?thesis
  proof (cases r)
    case (Reply st x)
    with Pair obtain cat where cat: "parse_category category = Some cat"
      and del: "delete_code d cat c = Some d'"
      by (auto simp: DELETE_code_library_def Let_def split: option.splits if_splits)
    show ?thesis
    proof (cases "cat' = cat")
      case True
      with codes_of_delete_code(2)[OF del] Pair show ?thesis by auto
    next
      case False
      with codes_of_delete_code(3)[OF del] Pair have "codes_of (fst (DELETE_code_library d category c)) cat'
          = filter (\<lambda>_. True) (codes_of d cat')" by simp
      then show ?thesis by blast
    qed
  next
    case (Failure st msg)
    with Pair have "d' = d"
      by (auto simp: DELETE_code_library_def Let_def split: option.splits if_splits)
    with Pair have "codes_of (fst (DELETE_code_library d category c)) cat'
          = filter (\<lambda>_. True) (codes_of d cat')" by simp
    then show ?thesis by blast
  qed
qed

lemma DELETE_code_library_catalog_ok:
  assumes "catalog_ok d"
  shows "catalog_ok (fst (DELETE_code_library d category c))"
  unfolding catalog_ok_codes_of
proof
  fix cat'
  from DELETE_code_library_codes[of d category c cat'] obtain P where
    "codes_of (fst (DELETE_code_library d category c)) cat' = filter P (codes_of d cat')" ..
  with assms show "codes_ok (codes_of (fst (DELETE_code_library d category c)) cat')"
    by (simp add: catalog_ok_codes_of codes_ok_filter)
qed

lemma catalog_ok_tables:
  "type_table d' = type_table d \<Longrightarrow> color_table d' = color_table d \<Longrightarrow>
   pattern_table d' = pattern_table d \<Longrightarrow> size_table d' = size_table d \<Longrightarrow>
   catalog_ok d' = catalog_ok d"
  by (simp add: catalog_ok_def)

lemma POST_inventory_catalog_ok:
  assumes "catalog_ok d"
  shows "catalog_ok (fst (POST_inventory h d b))"
proof -
  obtain d' r where p: "POST_inventory h d b = (d', r)" by (cases "POST_inventory h d b")
  then have "POST_inventory_at h d d b = (d', r)" by (simp add: POST_inventory_def)
  then have "catalog_ok d' = catalog_ok d"
    by (cases rule: POST_inventory_at_cases) (simp_all add: catalog_ok_def)
  with assms p show ?thesis by simp
qed

lemma DELETE_inventory_catalog_ok:
  assumes "catalog_ok d"
  shows "catalog_ok (fst (DELETE_inventory d s))"
  using assms
  by (simp add: DELETE_inventory_def catalog_ok_def split: option.split)

lemma handle_catalog_ok: "catalog_ok d \<Longrightarrow> catalog_ok (handle h d q)"
  by (cases q)
     (simp_all add: POST_inventory_catalog_ok DELETE_inventory_catalog_ok
        POST_code_library_catalog_ok DELETE_code_library_catalog_ok)

lemma serve_catalog_ok: "catalog_ok d \<Longrightarrow> catalog_ok (serve h d qs)"
  unfolding serve_def
  by (induction qs arbitrary: d) (simp_all add: handle_catalog_ok)

lemma seed_db_catalog_ok: "catalog_ok seed_db"
  by (simp add: catalog_ok_def codes_ok_def seed_db_eq seed_types_def seed_colors_def
        seed_patterns_def seed_sizes_def)

lemma length_decimal_lt1000: "100 \<le> n \<Longrightarrow> n < 1000 \<Longrightarrow> length (decimal n) = 3"
  by (subst decimal.simps) (simp add: decimal_lt100 length_two_digits)

lemma length_decimal_lt10000: "1000 \<le> n \<Longrightarrow> n < 10000 \<Longrightarrow> length (decimal n) = 4"
  by (subst decimal.simps) (simp add: length_decimal_lt1000)

lemma length_compute_dateCode:
  assumes "1000 \<le> getFullYear date" "getFullYear date \<le> 9999"
    and "0 \<le> getMonth date" "getMonth date \<le> 11"
    and "1 \<le> getDate date" "getDate date \<le> 31"
  shows "length (compute_dateCode date) = 6"
proof -
  have y: "length (slice 2 (String (Num (getFullYear date)))) = 2"
    using assms(1,2) by (simp add: slice_def length_decimal_lt10000)
  have m: "padStart 2 ''0'' (String (Num (getMonth date + 1))) = two_digits (nat (getMonth date + 1))"
    using assms(3,4) by (intro padStart_two_digits_int) simp_all
  have d: "padStart 2 ''0'' (String (Num (getDate date))) = two_digits (nat (getDate date))"
    using assms(5,6) by (intro padStart_two_digits_int) simp_all
  show ?thesis
    unfolding compute_dateCode_def dateCode_from_def plus_number.simps m d using y by (simp add: length_two_digits)
qed

lemma resolved_code_length:
  assumes "codes_ok (map code rows)" and "findUnique code rows c = Some r"
  shows "length c = 2"
proof -
  from findUnique_Some_key[OF assms(2)] have "c \<in> set (map code rows)" by auto
  with assms(1) show ?thesis by (auto simp: codes_ok_def list_all_iff)
qed

lemma allocation_lengths:
  assumes "catalog_ok d" and "ledger_ok d" and "POST_inventory h d b = (d', Reply st item)"
    and "new_Date h (body_purchaseDate b) = Some date"
    and "1000 \<le> getFullYear date" "getFullYear date \<le> 9999"
    and "0 \<le> getMonth date" "getMonth date \<le> 11"
    and "1 \<le> getDate date" "getDate date \<le> 31"
  shows "length (compute_baseKey b date) = 14" and "length (sku (item_row item)) = 16"
proof -
  from POST_inventory_Reply(1)[OF assms(3)] have plan: "POST_inventory_plan h d b = Inr item" .
  from plan obtain s where p:
    "sku (item_row item) = request_key h b @ s"
    "sequenceNum (item_row item) = s"
    "findUnique code (type_table d) (body_typeCode b) = Some (item_type item)"
    "findUnique code (color_table d) (body_colorCode b) = Some (item_color item)"
    "findUnique code (pattern_table d) (body_patternCode b) = Some (item_pattern item)"
    "findUnique code (size_table d) (body_sizeCode b) = Some (item_size item)"
    by (rule POST_inventory_plan_Inr)
  from assms(1) p(3-6) have l: "length (body_typeCode b) = 2" "length (body_colorCode b) = 2"
    "length (body_patternCode b) = 2" "length (body_sizeCode b) = 2"
    by (auto simp: catalog_ok_def dest: resolved_code_length)
  from l length_compute_dateCode[OF assms(5-10)]
  show k: "length (compute_baseKey b date) = 14" by (simp add: compute_baseKey_def)
  from plan_row_ok[OF assms(2) plan] obtain n where "sequenceNum (item_row item) = two_digits n"
    by (rule row_ok_seq)
  with p(2) have "length s = 2" by (metis length_two_digits)
  with p(1) request_key_valid(1)[OF assms(4)] k show "length (sku (item_row item)) = 16"
    by simp
qed

lemma POST_code_library_rejects:
  assumes "body_code b = [] \<or> length (body_code b) \<noteq> 2 \<or>
           (\<exists>cat. parse_category category = Some cat \<and> body_code b \<in> set (codes_of d cat))"
  shows "\<exists>msg. POST_code_library d category b = (d, Failure 400 msg) \<and>
           msg \<in> {''Code and name are required'', ''Code must be exactly 2 characters'',
                  ''Invalid category'', ''Code already exists''}"
  using assms
  by (auto simp: POST_code_library_def code_exists_iff split: option.splits)

lemma ex_lowercase_code:
  "POST_code_library seed_db ''types''
     \<lparr>body_code = ''dr'', body_name = ''dress'', body_hexValue = [], body_abbrev = []\<rparr> =
   (seed_db\<lparr>type_table := type_table seed_db @ [\<lparr>code = ''dr'', name = ''dress''\<rparr>]\<rparr>,
    Reply 200 (CodeItem \<lparr>code = ''dr'', name = ''dress''\<rparr>))"
  by (simp add: POST_code_library_def parse_category_def code_exists_def create_code_def Let_def
        findUnique_def table_create_def seed_db_eq seed_types_def)

text \<open>
  C10 as amended (shape of the catalog). A POST to the code library whose code is missing,
  is not exactly 2 characters long, or already exists in the category is rejected with
  status 400 and the database is unchanged. The seeded catalog holds only 2-character
  codes, each once in its category, and so does the catalog after any run of requests of
  the four routes from a catalog of that shape. Uppercase is not enforced: the code dr is
  accepted. With codes that resolve in such a catalog and a date segment of 6 characters,
  the AllocationKey has 14 characters and the Identifier of a successful allocation 16.
\<close>

theorem catalog_codes_have_two_characters:
  "(body_code b = [] \<or> length (body_code b) \<noteq> 2 \<or>
    (\<exists>cat. parse_category category = Some cat \<and> body_code b \<in> set (codes_of d cat)) \<longrightarrow>
    (\<exists>msg. POST_code_library d category b = (d, Failure 400 msg) \<and>
           msg \<in> {''Code and name are required'', ''Code must be exactly 2 characters'',
                  ''Invalid category'', ''Code already exists''})) \<and>
   catalog_ok seed_db \<and>
   (catalog_ok d \<longrightarrow> catalog_ok (serve h d qs)) \<and>
   POST_code_library seed_db ''types''
       \<lparr>body_code = ''dr'', body_name = ''dress'', body_hexValue = [], body_abbrev = []\<rparr> =
     (seed_db\<lparr>type_table := type_table seed_db @ [\<lparr>code = ''dr'', name = ''dress''\<rparr>]\<rparr>,
      Reply 200 (CodeItem \<lparr>code = ''dr'', name = ''dress''\<rparr>)) \<and>
   (catalog_ok d \<and> ledger_ok d \<and> POST_inventory h d ib = (d', Reply st item) \<and>
    new_Date h (body_purchaseDate ib) = Some date \<and>
    1000 \<le> getFullYear date \<and> getFullYear date \<le> 9999 \<and>
    0 \<le> getMonth date \<and> getMonth date \<le> 11 \<and> 1 \<le> getDate date \<and> getDate date \<le> 31 \<longrightarrow>
    length (compute_baseKey ib date) = 14 \<and> length (sku (item_row item)) = 16)"
  using POST_code_library_rejects[of b category d] seed_db_catalog_ok serve_catalog_ok[of d h qs]
    ex_lowercase_code allocation_lengths[of d h ib d' st item date]
  by blast

theorem catalog_codes_have_two_characters_witness:
  "length (body_code \<lparr>body_code = ''DRS'', body_name = ''Dress'', body_hexValue = [], body_abbrev = []\<rparr>) \<noteq> 2 \<and>
   (\<exists>msg. POST_code_library seed_db ''types''
            \<lparr>body_code = ''DRS'', body_name = ''Dress'', body_hexValue = [], body_abbrev = []\<rparr> =
          (seed_db, Failure 400 msg)) \<and>
   catalog_ok seed_db \<and>
   catalog_ok (serve utc_host seed_db [PostCodeLibrary ''types''
      \<lparr>body_code = ''dr'', body_name = ''dress'', body_hexValue = [], body_abbrev = []\<rparr>]) \<and>
   ledger_ok seed_db \<and>
   POST_inventory utc_host seed_db dress_body = (seed_with [dress_row ''01''], Reply 201 (dress_item ''01'')) \<and>
   new_Date utc_host (body_purchaseDate dress_body) = Some dress_date \<and>
   1000 \<le> getFullYear dress_date \<and> getFullYear dress_date \<le> 9999 \<and>
   0 \<le> getMonth dress_date \<and> getMonth dress_date \<le> 11 \<and>
   1 \<le> getDate dress_date \<and> getDate dress_date \<le> 31 \<and>
   length (compute_baseKey dress_body dress_date) = 14 \<and>
   length (sku (item_row (dress_item ''01''))) = 16"
proof -
  let ?bad = "\<lparr>body_code = ''DRS'', body_name = ''Dress'', body_hexValue = [], body_abbrev = []\<rparr>"
  let ?low = "\<lparr>body_code = ''dr'', body_name = ''dress'', body_hexValue = [], body_abbrev = []\<rparr>"
  have len: "length (body_code ?bad) \<noteq> 2" by simp
  have ok: "ledger_ok seed_db" by (simp add: ledger_ok_def inventory_seed_db)
  have dt: "1000 \<le> getFullYear dress_date" "getFullYear dress_date \<le> 9999"
    "0 \<le> getMonth dress_date" "getMonth dress_date \<le> 11"
    "1 \<le> getDate dress_date" "getDate dress_date \<le> 31"
    by (simp_all add: dress_date_def)
  note t1 = catalog_codes_have_two_characters[where b = ?bad and category = "''types''"
      and d = seed_db and h = utc_host and qs = "[PostCodeLibrary ''types'' ?low]" and ib = dress_body
      and d' = "seed_with [dress_row ''01'']" and st = 201 and item = "dress_item ''01''"
      and date = dress_date]
  have c0: "catalog_ok seed_db" using t1 by blast
  have c1: "\<exists>msg. POST_code_library seed_db ''types'' ?bad = (seed_db, Failure 400 msg)"
    using t1 len by blast
  have c2: "catalog_ok (serve utc_host seed_db [PostCodeLibrary ''types'' ?low])"
    using t1 c0 by blast
  have c3: "length (compute_baseKey dress_body dress_date) = 14 \<and>
            length (sku (item_row (dress_item ''01''))) = 16"
    using t1 c0 ok ex_first dress_body_simps(2) dt by blast
  from len c1 c0 c2 ok ex_first dress_body_simps(2) dt c3 show ?thesis by blast
qed

text \<open>
  The claim as stated fails: with the 2-character codes DR, BL, FL, MD of the seeded
  catalog and the 6-character date segment 251017, the AllocationKey has 14 characters,
  not 12, and the Identifier returned has 16, not 14.
\<close>

theorem allocation_key_is_not_12_characters:
  "catalog_ok seed_db \<and>
   POST_inventory utc_host seed_db dress_body = (seed_with [dress_row ''01''], Reply 201 (dress_item ''01'')) \<and>
   compute_baseKey dress_body dress_date = ''DRBLFLMD251017'' \<and>
   length (compute_baseKey dress_body dress_date) = 14 \<and>
   length (compute_baseKey dress_body dress_date) \<noteq> 12 \<and>
   sku (item_row (dress_item ''01'')) = ''DRBLFLMD25101701'' \<and>
   length (sku (item_row (dress_item ''01''))) = 16 \<and>
   length (sku (item_row (dress_item ''01''))) \<noteq> 14"
  using seed_db_catalog_ok ex_first
  by (simp add: baseKey_ex dress_item_def dress_row_def)

end
